theory Spec2Isabelle
  imports Main "HOL-Library.Sublist" "HOL-Library.Char_ord" "HOL-Library.List_Lexorder"
begin

section \<open>Errors\<close>

text \<open>
  Every error object that \<^verbatim>\<open>lib/backends/sdc/images.js\<close> creates or receives.
  \<open>ServiceError restCode statusCode message\<close> is an error handed back by a collaborator
  (moray, IMGAPI, VMAPI); \<open>DockerErrorCause\<close> is \<^verbatim>\<open>new errors.DockerError(cause, msg)\<close>;
  \<open>AssertionError\<close> and \<open>TypeError\<close> are exceptions thrown by \<^verbatim>\<open>assert\<close> and by the
  runtime; \<open>CalledBackTwice\<close> marks a pipeline stage that invoked its continuation more than
  once (what \<^verbatim>\<open>vasync\<close> does after that is not part of this model).
\<close>

datatype err =
    ResourceNotFoundError string
  | DockerError string
  | DockerErrorCause err string
  | AmbiguousDockerImageIdError string "string list"
  | ServiceError string nat string
  | AssertionError string
  | TypeError string
  | CalledBackTwice

text \<open>
  Modelled from the spec: \<^verbatim>\<open>lib/errors.js\<close> is not among the sources. The only
  \<^verbatim>\<open>restCode\<close> and \<^verbatim>\<open>statusCode\<close> values the code compares are those of
  \<open>ResourceNotFound\<close> style errors and of collaborator errors.
\<close>

fun restCode :: "err \<Rightarrow> string option" where
  "restCode (ResourceNotFoundError m) = Some ''ResourceNotFound''"
| "restCode (ServiceError rc sc m) = Some rc"
| "restCode e = None"

fun statusCode :: "err \<Rightarrow> nat option" where
  "statusCode (ResourceNotFoundError m) = Some 404"
| "statusCode (ServiceError rc sc m) = Some sc"
| "statusCode e = None"

section \<open>Data model\<close>

record image_v1 =
  i1_owner_uuid :: string
  i1_index_name :: string
  i1_docker_id :: string
  i1_head :: bool
  i1_heads :: "string list"
  i1_parent :: string
  i1_image_uuid :: string
  i1_refcount :: int
  i1_created :: int
  i1_size :: int
  i1_container_config_Cmd :: "string list option"

record image_tag =
  t1_owner_uuid :: string
  t1_index_name :: string
  t1_repo :: string
  t1_tag :: string
  t1_docker_id :: string

text \<open>One element of \<^verbatim>\<open>image.history\<close>; \<open>h_created_ms\<close> is
  \<^verbatim>\<open>(new Date(h.created)).getTime()\<close>.\<close>

record hist =
  h_comment :: "string option"
  h_created_ms :: int
  h_created_by :: "string option"
  h_size :: "int option"

record image_v2 =
  i2_owner_uuid :: string
  i2_digest :: string
  i2_head :: bool
  i2_image_uuid :: string
  i2_manifest_digest :: string
  i2_manifest_str :: string
  i2_parent :: string
  i2_created :: int
  i2_size :: int
  i2_history :: "hist list"
  i2_diff_ids :: "string list"
  i2_container_config_Cmd :: "string list option"

record image_tag_v2 =
  t2_owner_uuid :: string
  t2_repo :: string
  t2_tag :: string
  t2_digest :: string

text \<open>
  An \<^verbatim>\<open>img\<close> value of the code: an \<^verbatim>\<open>Image\<close> model object, an \<^verbatim>\<open>ImageV2\<close> model object,
  or the faux object \<^verbatim>\<open>{image_uuid, os}\<close> that \<^verbatim>\<open>findUuidInImgapi\<close> builds. A missing
  or empty \<^verbatim>\<open>parent\<close> (both falsy in the code) is the empty string.
\<close>

datatype docker_image = V1 image_v1 | V2 image_v2 | Faux string string

datatype any_tag = TagV1 image_tag | TagV2 image_tag_v2

fun isV1Image :: "docker_image \<Rightarrow> bool" where
  "isV1Image (V2 i) = False"
| "isV1Image i = True"

section \<open>Record store (moray buckets)\<close>

datatype bucket = docker_images | docker_image_tags | docker_images_v2 | docker_image_tags_v2

datatype fval = FStr string | FBool bool

type_synonym moray_filter = "(string \<times> fval) list"

datatype moray_call =
    ListObjs bucket moray_filter
  | DelObj bucket string
  | UpdateObj bucket string
  | PutObj bucket string

text \<open>
  The four buckets in listing order, and the log of the uuids handed to
  \<^verbatim>\<open>app.imgapi.deleteImage\<close>, in call order.
\<close>

record db =
  db_images :: "image_v1 list"
  db_image_tags :: "image_tag list"
  db_images_v2 :: "image_v2 list"
  db_image_tags_v2 :: "image_tag_v2 list"
  db_imgapi_deletes :: "string list"

record vm =
  vm_uuid :: string
  vm_state :: string

text \<open>\<^verbatim>\<open>rat\<close>: what \<^verbatim>\<open>drc.parseRepoAndTag\<close> returns, as far as the code reads it.\<close>

record rat =
  localName :: string
  rat_tag :: "string option"
  rat_digest :: "string option"

text \<open>
  The collaborators, as the answers they give: the failure (if any) of each moray call,
  the answers of IMGAPI and VMAPI, and the pure helper libraries that are not part of
  this repository's sources.
\<close>

record env =
  moray_fault :: "moray_call \<Rightarrow> err option"
  imgapi_getImage :: "string \<Rightarrow> err option"
  imgapi_getSmartos :: "string \<Rightarrow> string \<Rightarrow> err + (string \<times> string)"
  imgapi_deleteImage :: "string \<Rightarrow> err option"
  vmapi_listVms :: "string \<Rightarrow> string \<Rightarrow> string \<Rightarrow> err + vm list"
  datacenterRefcount :: "string \<Rightarrow> string \<Rightarrow> err + (string \<times> int) list"
  parseRepoAndTag :: "string \<Rightarrow> string + rat"
  isUUID :: "string \<Rightarrow> bool"
  parseManifestLayers :: "string \<Rightarrow> string list option"
  imgUuidFromDockerDigests :: "string list \<Rightarrow> string"
  dockerIdFromDigest :: "string \<Rightarrow> string"
  shortDockerId :: "string \<Rightarrow> string"
  vmUuidToShortDockerId :: "string \<Rightarrow> string"

text \<open>
  Modelled from the spec: \<^verbatim>\<open>lib/moray.js\<close> (\<^verbatim>\<open>listObjs\<close>, \<^verbatim>\<open>delObj\<close>,
  \<^verbatim>\<open>updateObj\<close>) is not among the sources. A filter is a conjunction of constraints on
  indexed fields; a string value that ends in \<^verbatim>\<open>*\<close> is a prefix constraint, any other
  value an equality constraint.
\<close>

definition matches_val :: "fval \<Rightarrow> fval \<Rightarrow> bool" where
  "matches_val pat v =
     (case pat of
        FStr p \<Rightarrow>
          (case v of
             FStr s \<Rightarrow> (if p \<noteq> [] \<and> last p = CHR ''*'' then prefix (butlast p) s else p = s)
           | FBool c \<Rightarrow> False)
      | FBool b \<Rightarrow> (case v of FStr s \<Rightarrow> False | FBool c \<Rightarrow> b = c))"

definition matches :: "('r \<Rightarrow> string \<Rightarrow> fval option) \<Rightarrow> moray_filter \<Rightarrow> 'r \<Rightarrow> bool" where
  "matches fieldf flt r =
     list_all (\<lambda>(k, pat). case fieldf r k of None \<Rightarrow> False | Some v \<Rightarrow> matches_val pat v) flt"

definition listObjs ::
  "env \<Rightarrow> bucket \<Rightarrow> ('r \<Rightarrow> string \<Rightarrow> fval option) \<Rightarrow> moray_filter \<Rightarrow> 'r list \<Rightarrow> err + 'r list" where
  "listObjs E b fieldf flt objs =
     (case moray_fault E (ListObjs b flt) of
        Some e \<Rightarrow> Inl e
      | None \<Rightarrow> Inr (filter (matches fieldf flt) objs))"

definition delObj :: "env \<Rightarrow> bucket \<Rightarrow> ('r \<Rightarrow> string) \<Rightarrow> string \<Rightarrow> 'r list \<Rightarrow> err + 'r list" where
  "delObj E b keyf k objs =
     (case moray_fault E (DelObj b k) of
        Some e \<Rightarrow> Inl e
      | None \<Rightarrow> Inr (filter (\<lambda>r. keyf r \<noteq> k) objs))"

subsection \<open>Image (v1) and ImageTag (v1) models\<close>

text \<open>
  Modelled from the spec: \<^verbatim>\<open>lib/models/image.js\<close>, \<^verbatim>\<open>image-tag.js\<close> and
  \<^verbatim>\<open>image-tag-v2.js\<close> are not among the sources. They follow the \<^verbatim>\<open>ImageV2\<close>
  model (which is), with the identity tuples of the spec as object keys.
\<close>

definition image_field :: "image_v1 \<Rightarrow> string \<Rightarrow> fval option" where
  "image_field r k =
     (if k = ''owner_uuid'' then Some (FStr (i1_owner_uuid r))
      else if k = ''index_name'' then Some (FStr (i1_index_name r))
      else if k = ''docker_id'' then Some (FStr (i1_docker_id r))
      else if k = ''head'' then Some (FBool (i1_head r))
      else if k = ''image_uuid'' then Some (FStr (i1_image_uuid r))
      else if k = ''parent'' then Some (FStr (i1_parent r))
      else None)"

definition image_key :: "image_v1 \<Rightarrow> string" where
  "image_key r = i1_owner_uuid r @ '','' @ i1_index_name r @ '','' @ i1_docker_id r"

definition Image_list :: "env \<Rightarrow> db \<Rightarrow> moray_filter \<Rightarrow> err + image_v1 list" where
  "Image_list E D flt = listObjs E docker_images image_field flt (db_images D)"

definition Image_del :: "env \<Rightarrow> db \<Rightarrow> image_v1 \<Rightarrow> err + db" where
  "Image_del E D img =
     (case delObj E docker_images image_key (image_key img) (db_images D) of
        Inl e \<Rightarrow> Inl e
      | Inr objs \<Rightarrow> Inr (D\<lparr>db_images := objs\<rparr>))"

definition image_tag_field :: "image_tag \<Rightarrow> string \<Rightarrow> fval option" where
  "image_tag_field r k =
     (if k = ''owner_uuid'' then Some (FStr (t1_owner_uuid r))
      else if k = ''index_name'' then Some (FStr (t1_index_name r))
      else if k = ''repo'' then Some (FStr (t1_repo r))
      else if k = ''tag'' then Some (FStr (t1_tag r))
      else if k = ''docker_id'' then Some (FStr (t1_docker_id r))
      else None)"

definition image_tag_key :: "image_tag \<Rightarrow> string" where
  "image_tag_key r =
     t1_owner_uuid r @ '','' @ t1_index_name r @ '','' @ t1_repo r @ '','' @ t1_tag r"

definition ImageTag_list :: "env \<Rightarrow> db \<Rightarrow> moray_filter \<Rightarrow> err + image_tag list" where
  "ImageTag_list E D flt = listObjs E docker_image_tags image_tag_field flt (db_image_tags D)"

definition ImageTag_del :: "env \<Rightarrow> db \<Rightarrow> image_tag \<Rightarrow> err + db" where
  "ImageTag_del E D t =
     (case delObj E docker_image_tags image_tag_key (image_tag_key t) (db_image_tags D) of
        Inl e \<Rightarrow> Inl e
      | Inr objs \<Rightarrow> Inr (D\<lparr>db_image_tags := objs\<rparr>))"

subsection \<open>ImageV2 and ImageTagV2 models\<close>

definition image_v2_field :: "image_v2 \<Rightarrow> string \<Rightarrow> fval option" where
  "image_v2_field r k =
     (if k = ''digest'' then Some (FStr (i2_digest r))
      else if k = ''head'' then Some (FBool (i2_head r))
      else if k = ''image_uuid'' then Some (FStr (i2_image_uuid r))
      else if k = ''manifest_digest'' then Some (FStr (i2_manifest_digest r))
      else if k = ''owner_uuid'' then Some (FStr (i2_owner_uuid r))
      else if k = ''parent'' then Some (FStr (i2_parent r))
      else None)"

definition objectKey :: "image_v2 \<Rightarrow> string" where
  "objectKey params = i2_owner_uuid params @ '','' @ i2_digest params"

definition ImageV2_list :: "env \<Rightarrow> db \<Rightarrow> moray_filter \<Rightarrow> err + image_v2 list" where
  "ImageV2_list E D flt = listObjs E docker_images_v2 image_v2_field flt (db_images_v2 D)"

definition ImageV2_del :: "env \<Rightarrow> db \<Rightarrow> image_v2 \<Rightarrow> err + db" where
  "ImageV2_del E D img =
     (case delObj E docker_images_v2 objectKey (objectKey img) (db_images_v2 D) of
        Inl e \<Rightarrow> Inl e
      | Inr objs \<Rightarrow> Inr (D\<lparr>db_images_v2 := objs\<rparr>))"

definition image_tag_v2_field :: "image_tag_v2 \<Rightarrow> string \<Rightarrow> fval option" where
  "image_tag_v2_field r k =
     (if k = ''owner_uuid'' then Some (FStr (t2_owner_uuid r))
      else if k = ''repo'' then Some (FStr (t2_repo r))
      else if k = ''tag'' then Some (FStr (t2_tag r))
      else if k = ''digest'' then Some (FStr (t2_digest r))
      else None)"

definition image_tag_v2_key :: "image_tag_v2 \<Rightarrow> string" where
  "image_tag_v2_key r = t2_owner_uuid r @ '','' @ t2_repo r @ '','' @ t2_tag r"

definition ImageTagV2_list :: "env \<Rightarrow> db \<Rightarrow> moray_filter \<Rightarrow> err + image_tag_v2 list" where
  "ImageTagV2_list E D flt =
     listObjs E docker_image_tags_v2 image_tag_v2_field flt (db_image_tags_v2 D)"

definition ImageTagV2_del :: "env \<Rightarrow> db \<Rightarrow> image_tag_v2 \<Rightarrow> err + db" where
  "ImageTagV2_del E D t =
     (case delObj E docker_image_tags_v2 image_tag_v2_key (image_tag_v2_key t)
             (db_image_tags_v2 D) of
        Inl e \<Rightarrow> Inl e
      | Inr objs \<Rightarrow> Inr (D\<lparr>db_image_tags_v2 := objs\<rparr>))"

section \<open>Tags of an image\<close>

text \<open>The two branches of \<^verbatim>\<open>tagsForImage\<close>, which dispatches on \<^verbatim>\<open>isV1Image(img)\<close>.\<close>

definition tagsForImageV1 ::
  "env \<Rightarrow> db \<Rightarrow> string \<Rightarrow> string option \<Rightarrow> string \<Rightarrow> err + image_tag list" where
  "tagsForImageV1 E D account index_name docker_id =
     ImageTag_list E D
       ([(''owner_uuid'', FStr account), (''docker_id'', FStr docker_id)]
        @ (case index_name of
             None \<Rightarrow> []
           | Some ix \<Rightarrow> (if ix = [] then [] else [(''index_name'', FStr ix)])))"

definition tagsForImageV2 :: "env \<Rightarrow> db \<Rightarrow> string \<Rightarrow> image_v2 \<Rightarrow> err + image_tag_v2 list" where
  "tagsForImageV2 E D account img =
     ImageTagV2_list E D [(''owner_uuid'', FStr account), (''digest'', FStr (i2_digest img))]"

section \<open>Lookup by identity and the ancestry walk\<close>

definition imgFromImgInfoV1 :: "env \<Rightarrow> db \<Rightarrow> string \<Rightarrow> string \<Rightarrow> string \<Rightarrow> err + image_v1" where
  "imgFromImgInfoV1 E D account indexName imgId =
     (case Image_list E D
             [(''owner_uuid'', FStr account), (''index_name'', FStr indexName),
              (''docker_id'', FStr imgId)] of
        Inl e \<Rightarrow> Inl e
      | Inr imgs \<Rightarrow>
          (case imgs of
             [] \<Rightarrow> Inl (ResourceNotFoundError
                        (''No such image id (from registry '' @ indexName @ ''): '' @ imgId))
           | [i] \<Rightarrow> Inr i
           | i # j # others \<Rightarrow> Inl (AssertionError ''imgs.length == 1'')))"

definition imgFromImgInfoV2 :: "env \<Rightarrow> db \<Rightarrow> string \<Rightarrow> string \<Rightarrow> err + image_v2" where
  "imgFromImgInfoV2 E D account digest =
     (case ImageV2_list E D [(''owner_uuid'', FStr account), (''digest'', FStr digest)] of
        Inl e \<Rightarrow> Inl e
      | Inr imgs \<Rightarrow>
          (case imgs of
             [] \<Rightarrow> Inl (ResourceNotFoundError (''No such image: '' @ digest))
           | [i] \<Rightarrow> Inr i
           | i # j # others \<Rightarrow> Inl (AssertionError ''imgs.length == 1'')))"

fun img_parent :: "docker_image \<Rightarrow> string" where
  "img_parent (V1 i) = i1_parent i"
| "img_parent (V2 i) = i2_parent i"
| "img_parent (Faux u os) = []"

text \<open>The parent lookup inside \<^verbatim>\<open>addAndGetNextItem\<close>: v1 by (account, index, id), v2 by
  (account, digest).\<close>

fun lookupParent :: "env \<Rightarrow> db \<Rightarrow> string \<Rightarrow> docker_image \<Rightarrow> err + docker_image" where
  "lookupParent E D account (V2 i) =
     (case imgFromImgInfoV2 E D account (i2_parent i) of Inl e \<Rightarrow> Inl e | Inr p \<Rightarrow> Inr (V2 p))"
| "lookupParent E D account (V1 i) =
     (case imgFromImgInfoV1 E D account (i1_index_name i) (i1_parent i) of
        Inl e \<Rightarrow> Inl e | Inr p \<Rightarrow> Inr (V1 p))"
| "lookupParent E D account (Faux u os) =
     Inl (TypeError ''faux image has no parent'')"

definition checkAndCallback ::
  "err option \<Rightarrow> docker_image list \<Rightarrow> err + (docker_image list \<times> bool)" where
  "checkAndCallback err ancestry =
     (case err of
        Some e \<Rightarrow>
          (if restCode e = Some ''ResourceNotFound'' \<and> length ancestry \<ge> 1
           then Inr (ancestry, True)
           else Inl e)
      | None \<Rightarrow> Inr (ancestry, False))"

text \<open>
  The walk has no bound of its own (a cyclic parent chain never ends), so it takes fuel:
  \<open>None\<close> is "has not called back within that many steps".
\<close>

fun addAndGetNextItem ::
  "env \<Rightarrow> db \<Rightarrow> string \<Rightarrow> nat \<Rightarrow> docker_image list \<Rightarrow> docker_image
     \<Rightarrow> (err + (docker_image list \<times> bool)) option" where
  "addAndGetNextItem E D account 0 ancestry img = None"
| "addAndGetNextItem E D account (Suc n) ancestry img =
     (if img_parent img = [] then Some (checkAndCallback None (ancestry @ [img]))
      else
        (case lookupParent E D account img of
           Inl e \<Rightarrow> Some (checkAndCallback (Some e) (ancestry @ [img]))
         | Inr parentImg \<Rightarrow> addAndGetNextItem E D account n (ancestry @ [img]) parentImg))"

definition getImageAncestry ::
  "env \<Rightarrow> db \<Rightarrow> string \<Rightarrow> nat \<Rightarrow> docker_image \<Rightarrow> (err + (docker_image list \<times> bool)) option" where
  "getImageAncestry E D account fuel img = addAndGetNextItem E D account fuel [] img"

text \<open>A list of records in which each one's parent lookup yields the next.\<close>

fun parent_chain :: "env \<Rightarrow> db \<Rightarrow> string \<Rightarrow> docker_image list \<Rightarrow> bool" where
  "parent_chain E D account [] = True"
| "parent_chain E D account [x] = True"
| "parent_chain E D account (x # y # zs) =
     (img_parent x \<noteq> [] \<and> lookupParent E D account x = Inr y \<and> parent_chain E D account (y # zs))"

section \<open>Name resolution\<close>

record opts =
  o_name :: string
  o_account :: string
  o_index_name :: "string option"
  o_includeSmartos :: bool
  o_force :: bool

text \<open>\<^verbatim>\<open>/^[0-9a-f]+$/.test(s)\<close> and \<^verbatim>\<open>/^sha256:[0-9a-f]+$/.test(s)\<close>.\<close>

definition is_hex :: "string \<Rightarrow> bool" where
  "is_hex s = (s \<noteq> [] \<and> list_all (\<lambda>c. c \<in> set ''0123456789abcdef'') s)"

definition is_sha256_hex :: "string \<Rightarrow> bool" where
  "is_sha256_hex s = (take 7 s = ''sha256:'' \<and> is_hex (drop 7 s))"

definition tag_constraint :: "string option \<Rightarrow> moray_filter" where
  "tag_constraint t = (case t of None \<Rightarrow> [] | Some tg \<Rightarrow> [(''tag'', FStr tg)])"

text \<open>\<^verbatim>\<open>if (opts.index_name) filter[0].index_name = opts.index_name\<close>: an empty string
  is falsy, as an absent one.\<close>

definition index_constraint :: "string option \<Rightarrow> moray_filter" where
  "index_constraint ix =
     (case ix of
        None \<Rightarrow> []
      | Some i \<Rightarrow> (if i = [] then [] else [(''index_name'', FStr i)]))"

subsection \<open>\<^verbatim>\<open>_imgFromNameV2\<close>\<close>

definition v2_findByName :: "env \<Rightarrow> db \<Rightarrow> string \<Rightarrow> rat \<Rightarrow> err + image_tag_v2 option" where
  "v2_findByName E D account r =
     (case ImageTagV2_list E D
             ([(''repo'', FStr (localName r)), (''owner_uuid'', FStr account)]
              @ tag_constraint (rat_tag r)) of
        Inl e \<Rightarrow> Inl e
      | Inr imgTags \<Rightarrow> (case imgTags of [] \<Rightarrow> Inr None | t # ts \<Rightarrow> Inr (Some t)))"

text \<open>The filter that \<^verbatim>\<open>findImage\<close> builds; \<open>None\<close> is the branch that calls
  \<^verbatim>\<open>next()\<close> without a search.\<close>

definition v2_findImage_filter :: "string \<Rightarrow> rat \<Rightarrow> image_tag_v2 option \<Rightarrow> moray_filter option" where
  "v2_findImage_filter account r imgTag =
     (case imgTag of
        Some t \<Rightarrow> Some [(''digest'', FStr (t2_digest t)), (''owner_uuid'', FStr account)]
      | None \<Rightarrow>
          (if is_sha256_hex (localName r)
           then Some [(''digest'', FStr (localName r @ ''*'')), (''owner_uuid'', FStr account)]
           else if is_hex (localName r)
           then Some [(''digest'', FStr (''sha256:'' @ localName r @ ''*'')),
                      (''owner_uuid'', FStr account)]
           else None))"

text \<open>The result is the value of \<^verbatim>\<open>img\<close> after the stage: no hit, and more than one
  hit (the early abort), both leave it undefined.\<close>

definition v2_findImage ::
  "env \<Rightarrow> db \<Rightarrow> string \<Rightarrow> rat \<Rightarrow> image_tag_v2 option \<Rightarrow> err + image_v2 option" where
  "v2_findImage E D account r imgTag =
     (case v2_findImage_filter account r imgTag of
        None \<Rightarrow> Inr None
      | Some flt \<Rightarrow>
          (case ImageV2_list E D flt of
             Inl e \<Rightarrow> Inl e
           | Inr imgs \<Rightarrow>
               (case imgs of
                  [] \<Rightarrow> Inr None
                | [i] \<Rightarrow> Inr (Some i)
                | i # j # others \<Rightarrow> Inr None)))"

definition imgFromNameV2 ::
  "env \<Rightarrow> db \<Rightarrow> string \<Rightarrow> rat \<Rightarrow> db \<times> (err + (image_v2 option \<times> image_tag_v2 option))" where
  "imgFromNameV2 E D account r =
     (case v2_findByName E D account r of
        Inl e \<Rightarrow> (D, Inl e)
      | Inr imgTag \<Rightarrow>
          (case v2_findImage E D account r imgTag of
             Inl e \<Rightarrow> (D, Inl e)
           | Inr None \<Rightarrow> (D, Inr (None, imgTag))
           | Inr (Some img) \<Rightarrow>
               (case imgapi_getImage E (i2_image_uuid img) of
                  None \<Rightarrow> (D, Inr (Some img, imgTag))
                | Some e \<Rightarrow>
                    (if statusCode e = Some 404
                     then
                       (case ImageV2_del E D img of
                          Inl e' \<Rightarrow> (D, Inl e')
                        | Inr D' \<Rightarrow>
                            (case imgTag of
                               None \<Rightarrow> (D', Inr (None, None))
                             | Some t \<Rightarrow>
                                 (case ImageTagV2_del E D' t of
                                    Inl e' \<Rightarrow> (D', Inl e')
                                  | Inr D'' \<Rightarrow> (D'', Inr (None, None)))))
                     else (D, Inl e)))))"

subsection \<open>\<^verbatim>\<open>_imgFromNameV1\<close>\<close>

definition v1_findByName ::
  "env \<Rightarrow> db \<Rightarrow> string \<Rightarrow> string option \<Rightarrow> rat \<Rightarrow> err + image_tag option" where
  "v1_findByName E D account index_name r =
     (case ImageTag_list E D
             ([(''repo'', FStr (localName r)), (''owner_uuid'', FStr account)]
              @ tag_constraint (rat_tag r) @ index_constraint index_name) of
        Inl e \<Rightarrow> Inl e
      | Inr imgTags \<Rightarrow> (case imgTags of [] \<Rightarrow> Inr None | t # ts \<Rightarrow> Inr (Some t)))"

definition v1_findImage_filter ::
  "string \<Rightarrow> string option \<Rightarrow> rat \<Rightarrow> image_tag option \<Rightarrow> moray_filter option" where
  "v1_findImage_filter account index_name r imgTag =
     (case imgTag of
        Some t \<Rightarrow>
          Some ([(''docker_id'', FStr (t1_docker_id t)), (''owner_uuid'', FStr account)]
                @ index_constraint index_name)
      | None \<Rightarrow>
          (if is_hex (localName r) \<and> length (localName r) \<le> 64
           then
             (if length (localName r) = 64
              then Some ([(''docker_id'', FStr (localName r)), (''owner_uuid'', FStr account)]
                         @ index_constraint index_name)
              else Some ([(''docker_id'', FStr (localName r @ ''*'')),
                          (''owner_uuid'', FStr account)]
                         @ index_constraint index_name))
           else None))"

definition v1_findImage ::
  "env \<Rightarrow> db \<Rightarrow> string \<Rightarrow> string option \<Rightarrow> rat \<Rightarrow> image_tag option \<Rightarrow> err + image_v1 option" where
  "v1_findImage E D account index_name r imgTag =
     (case v1_findImage_filter account index_name r imgTag of
        None \<Rightarrow> Inr None
      | Some flt \<Rightarrow>
          (case Image_list E D flt of
             Inl e \<Rightarrow> Inl e
           | Inr imgs \<Rightarrow>
               (case imgs of
                  [] \<Rightarrow> Inr None
                | [i] \<Rightarrow> Inr (Some i)
                | i # j # others \<Rightarrow>
                    (if length (remdups (map i1_docker_id imgs)) = 1
                     then Inl (AmbiguousDockerImageIdError (localName r)
                                 (map i1_index_name imgs))
                     else Inr None))))"

definition imgFromNameV1 ::
  "env \<Rightarrow> db \<Rightarrow> string \<Rightarrow> string option \<Rightarrow> rat
     \<Rightarrow> db \<times> (err + (image_v1 option \<times> image_tag option))" where
  "imgFromNameV1 E D account index_name r =
     (case v1_findByName E D account index_name r of
        Inl e \<Rightarrow> (D, Inl e)
      | Inr imgTag \<Rightarrow>
          (case v1_findImage E D account index_name r imgTag of
             Inl e \<Rightarrow> (D, Inl e)
           | Inr None \<Rightarrow> (D, Inr (None, imgTag))
           | Inr (Some img) \<Rightarrow>
               (case imgapi_getImage E (i1_image_uuid img) of
                  None \<Rightarrow> (D, Inr (Some img, imgTag))
                | Some e \<Rightarrow>
                    (if statusCode e = Some 404
                     then
                       (case Image_del E D img of
                          Inl e' \<Rightarrow> (D, Inl e')
                        | Inr D' \<Rightarrow>
                            (case imgTag of
                               None \<Rightarrow> (D', Inr (None, None))
                             | Some t \<Rightarrow>
                                 (case ImageTag_del E D' t of
                                    Inl e' \<Rightarrow> (D', Inl e')
                                  | Inr D'' \<Rightarrow> (D'', Inr (None, None)))))
                     else (D, Inl e)))))"

subsection \<open>Lookup by manifest digest and by image digest\<close>

definition checkImageInImgapi :: "env \<Rightarrow> image_v2 \<Rightarrow> err + image_v2" where
  "checkImageInImgapi E img =
     (case imgapi_getImage E (i2_image_uuid img) of
        Some e \<Rightarrow>
          (if statusCode e = Some 404
           then Inl (ResourceNotFoundError
                       (''No imgapi image with image_uuid: '' @ i2_image_uuid img))
           else Inl e)
      | None \<Rightarrow> Inr img)"

definition imgFromManifestDigest :: "env \<Rightarrow> db \<Rightarrow> string \<Rightarrow> string \<Rightarrow> err + image_v2" where
  "imgFromManifestDigest E D account manifestDigest =
     (case ImageV2_list E D
             [(''manifest_digest'', FStr manifestDigest), (''owner_uuid'', FStr account)] of
        Inl e \<Rightarrow> Inl e
      | Inr imgs \<Rightarrow>
          (case imgs of
             [] \<Rightarrow> Inl (ResourceNotFoundError
                        (''No image with manifest digest: '' @ manifestDigest))
           | [i] \<Rightarrow> checkImageInImgapi E i
           | i # j # others \<Rightarrow>
               Inl (DockerError (''Error - multiple images with the same manifest digest: ''
                                  @ manifestDigest))))"

definition imgFromDigest :: "env \<Rightarrow> db \<Rightarrow> string \<Rightarrow> string \<Rightarrow> err + image_v2" where
  "imgFromDigest E D account digest =
     (case ImageV2_list E D [(''digest'', FStr digest), (''owner_uuid'', FStr account)] of
        Inl e \<Rightarrow> Inl e
      | Inr imgs \<Rightarrow>
          (case imgs of
             [] \<Rightarrow> Inl (ResourceNotFoundError (''No image with digest: '' @ digest))
           | [i] \<Rightarrow> checkImageInImgapi E i
           | i # j # others \<Rightarrow>
               Inl (DockerError (''Error - multiple images found with the same digest: ''
                                  @ digest))))"

subsection \<open>\<^verbatim>\<open>imgFromName\<close>\<close>

text \<open>The last two stages of the pipeline: v2 by name, then v1 by name.\<close>

definition findByNameV2_V1 ::
  "env \<Rightarrow> db \<Rightarrow> opts \<Rightarrow> rat \<Rightarrow> db \<times> (err + (docker_image option \<times> any_tag option))" where
  "findByNameV2_V1 E D opts r =
     (case imgFromNameV2 E D (o_account opts) r of
        (D2, Inl e) \<Rightarrow> (D2, Inl e)
      | (D2, Inr (Some img, imgTag)) \<Rightarrow> (D2, Inr (Some (V2 img), map_option TagV2 imgTag))
      | (D2, Inr (None, imgTag)) \<Rightarrow>
          (case imgFromNameV1 E D2 (o_account opts) (o_index_name opts) r of
             (D1, Inl e) \<Rightarrow> (D1, Inl e)
           | (D1, Inr (img, imgTag1)) \<Rightarrow>
               (D1, Inr (map_option V1 img, map_option TagV1 imgTag1))))"

text \<open>The stages \<^verbatim>\<open>findByManifestDigest\<close> and \<^verbatim>\<open>findByImageDigest\<close> and what follows
  them.\<close>

definition findByDigests ::
  "env \<Rightarrow> db \<Rightarrow> opts \<Rightarrow> rat \<Rightarrow> db \<times> (err + (docker_image option \<times> any_tag option))" where
  "findByDigests E D opts r =
     (case (case rat_digest r of
              None \<Rightarrow> Inr None
            | Some md \<Rightarrow>
                (if md = [] then Inr None
                 else (case imgFromManifestDigest E D (o_account opts) md of
                         Inl e \<Rightarrow> Inl e | Inr i \<Rightarrow> Inr (Some i)))) of
        Inl e \<Rightarrow> (D, Inl e)
      | Inr (Some i) \<Rightarrow> (D, Inr (Some (V2 i), None))
      | Inr None \<Rightarrow>
          (case (if length (o_name opts) \<noteq> 64 + 7 \<or> take 7 (o_name opts) \<noteq> ''sha256:''
                 then Inr None
                 else (case imgFromDigest E D (o_account opts) (o_name opts) of
                         Inl e \<Rightarrow> Inl e | Inr i \<Rightarrow> Inr (Some i))) of
             Inl e \<Rightarrow> (D, Inl e)
           | Inr (Some i) \<Rightarrow> (D, Inr (Some (V2 i), None))
           | Inr None \<Rightarrow> findByNameV2_V1 E D opts r))"

definition imgFromName ::
  "env \<Rightarrow> db \<Rightarrow> opts \<Rightarrow> db \<times> (err + (docker_image option \<times> any_tag option))" where
  "imgFromName E D opts =
     (case parseRepoAndTag E (o_name opts) of
        Inl msg \<Rightarrow> (D, Inl (DockerError msg))
      | Inr r \<Rightarrow>
          (if \<not> o_includeSmartos opts \<or> \<not> isUUID E (localName r)
           then findByDigests E D opts r
           else
             (case imgapi_getSmartos E (localName r) (o_account opts) of
                Inl e \<Rightarrow>
                  (if statusCode e = Some 404 then findByDigests E D opts r else (D, Inl e))
              | Inr (u, os) \<Rightarrow> (D, Inr (Some (Faux u os), None)))))"

section \<open>History\<close>


fun join_with :: "string \<Rightarrow> string list \<Rightarrow> string" where
  "join_with sep [] = []"
| "join_with sep [x] = x"
| "join_with sep (x # y # zs) = x @ sep @ join_with sep (y # zs)"


fun img_Id :: "docker_image \<Rightarrow> string" where
  "img_Id (V1 i) = i1_docker_id i"
| "img_Id (V2 i) = i2_digest i"
| "img_Id (Faux u os) = []"








section \<open>Deletion\<close>

datatype change = Untagged string | Deleted string

text \<open>
  A delete returns the store, the error handed to the callback (if any) and the
  \<^verbatim>\<open>changes\<close> array as it is at that moment.
\<close>

type_synonym delete_result = "db \<times> err option \<times> change list"

text \<open>\<^verbatim>\<open>verifyNotInUse\<close> (the same in both engines). The sort is taken to be stable.\<close>

definition verifyNotInUse :: "env \<Rightarrow> opts \<Rightarrow> string \<Rightarrow> err option" where
  "verifyNotInUse E opts image_uuid =
     (case vmapi_listVms E (if o_force opts then ''running'' else ''active'') image_uuid
             (o_account opts) of
        Inl e \<Rightarrow> Some (DockerErrorCause e ''could not delete image'')
      | Inr vms \<Rightarrow>
          (case sort_key vm_state vms of
             [] \<Rightarrow> None
           | v # vs \<Rightarrow>
               (if vm_state v = ''running''
                then Some (DockerError
                       (''Conflict, cannot '' @ (if o_force opts then ''force '' else [])
                        @ ''delete '' @ o_name opts @ '' because the running container ''
                        @ vmUuidToShortDockerId E (vm_uuid v)
                        @ '' is using it, stop it and use -f to force''))
                else Some (DockerError
                       (''Conflict, cannot '' @ (if o_force opts then ''force '' else [])
                        @ ''delete '' @ o_name opts @ '' because the container ''
                        @ vmUuidToShortDockerId E (vm_uuid v)
                        @ '' is using it, use -f to force'')))))"

definition conflict_message :: "string \<Rightarrow> string" where
  "conflict_message n =
     ''conflict: unable to delete '' @ n
       @ '' (must be forced) - image is referenced in one or more repositories''"

subsection \<open>\<^verbatim>\<open>_deleteImageV2\<close>\<close>

fun img_head :: "docker_image \<Rightarrow> bool" where
  "img_head (V1 i) = i1_head i"
| "img_head (V2 i) = i2_head i"
| "img_head (Faux u os) = False"

text \<open>The \<^verbatim>\<open>filter\<close> callback of \<^verbatim>\<open>getImgsToDelete\<close>, with its sticky \<^verbatim>\<open>headFound\<close>.\<close>

fun filterHeadFound :: "bool \<Rightarrow> docker_image list \<Rightarrow> docker_image list" where
  "filterHeadFound headFound [] = []"
| "filterHeadFound headFound (i # rest) =
     (if headFound \<or> img_head i then filterHeadFound True rest
      else i # filterHeadFound False rest)"

fun v2_records :: "docker_image list \<Rightarrow> image_v2 list" where
  "v2_records [] = []"
| "v2_records (V2 i # rest) = i # v2_records rest"
| "v2_records (x # rest) = v2_records rest"

fun v1_records :: "docker_image list \<Rightarrow> image_v1 list" where
  "v1_records [] = []"
| "v1_records (V1 i # rest) = i # v1_records rest"
| "v1_records (x # rest) = v1_records rest"

fun deleteDockerTags :: "env \<Rightarrow> db \<Rightarrow> image_tag_v2 list \<Rightarrow> change list \<Rightarrow> delete_result" where
  "deleteDockerTags E D [] changes = (D, None, changes)"
| "deleteDockerTags E D (imgTag # rest) changes =
     (case ImageTagV2_del E D imgTag of
        Inl e \<Rightarrow> (D, Some e, changes)
      | Inr D' \<Rightarrow>
          deleteDockerTags E D' rest
            (changes @ [Untagged (t2_repo imgTag @ '':'' @ t2_tag imgTag)]))"

record layerInfo =
  li_layerDigest :: string
  li_diffId :: string
  li_uuid :: string

definition layerInfos :: "env \<Rightarrow> string list \<Rightarrow> string list \<Rightarrow> layerInfo list" where
  "layerInfos E layerDigests diffIds =
     map (\<lambda>idx. \<lparr> li_layerDigest = layerDigests ! idx,
                  li_diffId = diffIds ! idx,
                  li_uuid = imgUuidFromDockerDigests E (take (Suc idx) layerDigests) \<rparr>)
         [0 ..< length layerDigests]"

text \<open>The \<^verbatim>\<open>forEachPipeline\<close> over \<^verbatim>\<open>deleteLayer\<close>; \<open>hit\<close> is
  \<^verbatim>\<open>hitImageHasDependentImagesError\<close>.\<close>

fun deleteLayer ::
  "env \<Rightarrow> db \<Rightarrow> layerInfo list \<Rightarrow> bool \<Rightarrow> (string \<Rightarrow> nat) \<Rightarrow> change list \<Rightarrow> delete_result" where
  "deleteLayer E D [] hit ownUuidRefCount changes = (D, None, changes)"
| "deleteLayer E D (li # rest) hit ownUuidRefCount changes =
     (if hit then deleteLayer E D rest hit ownUuidRefCount changes
      else
        (case ImageV2_list E D [(''image_uuid'', FStr (li_uuid li))] of
           Inl lookupErr \<Rightarrow> (D, Some lookupErr, changes)
         | Inr imgs \<Rightarrow>
             (let own = (0 < ownUuidRefCount (li_uuid li));
                  imageRefCnt = int (length imgs) - (if own then 1 else 0);
                  ownUuidRefCount' =
                    (if own then ownUuidRefCount (li_uuid li := ownUuidRefCount (li_uuid li) - 1)
                     else ownUuidRefCount)
              in if imageRefCnt \<ge> 1
                 then deleteLayer E D rest True ownUuidRefCount' changes
                 else
                   (let D' = D\<lparr>db_imgapi_deletes := db_imgapi_deletes D @ [li_uuid li]\<rparr>
                    in (case imgapi_deleteImage E (li_uuid li) of
                          Some e \<Rightarrow>
                            (if restCode e = Some ''ImageHasDependentImages''
                             then deleteLayer E D' rest True ownUuidRefCount' changes
                             else (D', Some e, changes))
                        | None \<Rightarrow>
                            deleteLayer E D' rest False ownUuidRefCount'
                              (changes @ [Deleted (li_diffId li)]))))))"

definition deleteImgapiLayers ::
  "env \<Rightarrow> db \<Rightarrow> image_v2 \<Rightarrow> image_v2 list \<Rightarrow> change list \<Rightarrow> delete_result" where
  "deleteImgapiLayers E D img imgsToDelete changes =
     (case parseManifestLayers E (i2_manifest_str img) of
        None \<Rightarrow>
          (D, Some (DockerError (''Unable to parse image manifest_str for image ''
                                  @ i2_digest img)), changes)
      | Some layers \<Rightarrow>
          (if length (i2_diff_ids img) \<noteq> length layers
           then (D, Some (AssertionError
                   ''diff_ids length and manifest.layers length must be equal''), changes)
           else deleteLayer E D (rev (layerInfos E layers (i2_diff_ids img))) False
                  (count_list (map i2_image_uuid imgsToDelete)) changes))"

fun deleteDockerImages ::
  "env \<Rightarrow> db \<Rightarrow> string \<Rightarrow> image_v2 list \<Rightarrow> change list \<Rightarrow> delete_result" where
  "deleteDockerImages E D digest [] changes = (D, None, changes)"
| "deleteDockerImages E D digest (img # rest) changes =
     (if i2_digest img \<noteq> digest \<and> i2_head img
      then (D, Some (AssertionError ''img.head should be false''), changes)
      else
        (case ImageV2_del E D img of
           Inl delErr \<Rightarrow> (D, Some (DockerErrorCause delErr ''could not delete image''), changes)
         | Inr D' \<Rightarrow> deleteDockerImages E D' digest rest (changes @ [Deleted (i2_digest img)])))"

text \<open>The last two stages of the pipeline: \<^verbatim>\<open>deleteImgapiLayers\<close>, then
  \<^verbatim>\<open>deleteDockerImages\<close>.\<close>

definition deleteLayersThenImages ::
  "env \<Rightarrow> db \<Rightarrow> image_v2 \<Rightarrow> image_v2 list \<Rightarrow> change list \<Rightarrow> delete_result" where
  "deleteLayersThenImages E D img imgsToDelete changes =
     (case deleteImgapiLayers E D img imgsToDelete changes of
        (D2, Some e, ch2) \<Rightarrow> (D2, Some e, ch2)
      | (D2, None, ch2) \<Rightarrow> deleteDockerImages E D2 (i2_digest img) imgsToDelete ch2)"

definition deleteImageV2 ::
  "env \<Rightarrow> db \<Rightarrow> opts \<Rightarrow> nat \<Rightarrow> image_v2 \<Rightarrow> image_tag_v2 option \<Rightarrow> delete_result option" where
  "deleteImageV2 E D opts fuel img imgTag =
     (case tagsForImageV2 E D (o_account opts) img of
        Inl e \<Rightarrow> Some (D, Some e, [])
      | Inr imgTags \<Rightarrow>
          (if imgTag = None \<and> \<not> o_force opts \<and> length imgTags > 1
           then Some (D, Some (DockerError (conflict_message
                        (shortDockerId E (dockerIdFromDigest E (i2_digest img))))), [])
           else
             (case (if length imgTags > 1 then imgTag else None) of
                Some t \<Rightarrow>
                  (case ImageTagV2_del E D t of
                     Inl e \<Rightarrow> Some (D, Some e, [])
                   | Inr D' \<Rightarrow> Some (D', None, [Untagged (t2_repo t @ '':'' @ t2_tag t)]))
              | None \<Rightarrow>
                  (case verifyNotInUse E opts (i2_image_uuid img) of
                     Some e \<Rightarrow> Some (D, Some e, [])
                   | None \<Rightarrow>
                       (case getImageAncestry E D (o_account opts) fuel (V2 img) of
                          None \<Rightarrow> None
                        | Some (Inl e) \<Rightarrow>
                            Some (D, Some (DockerErrorCause e ''could not delete image''), [])
                        | Some (Inr (ancestry, isPartial)) \<Rightarrow>
                            (let imgsToDelete =
                                   v2_records (take 1 ancestry
                                               @ filterHeadFound False (drop 1 ancestry))
                             in (case deleteDockerTags E D imgTags [] of
                                   (D1, Some e, ch1) \<Rightarrow> Some (D1, Some e, ch1)
                                 | (D1, None, ch1) \<Rightarrow>
                                     Some (deleteLayersThenImages E D1 img imgsToDelete
                                             ch1))))))))"

subsection \<open>\<^verbatim>\<open>_deleteImageV1\<close>\<close>

definition ensureIsHeadImage :: "image_v1 \<Rightarrow> err option" where
  "ensureIsHeadImage img =
     (if i1_head img \<noteq> True
      then Some (DockerError
             (''Conflict, '' @ take 12 (i1_docker_id img)
              @ '' wasn't deleted because it is an intermediate layer being referenced by ''
              @ join_with '', '' (map (take 12) (i1_heads img))))
      else None)"

text \<open>\<^verbatim>\<open>checkTagReferences\<close>: the error, or the new values of \<^verbatim>\<open>dontDeleteImages\<close> and
  \<^verbatim>\<open>ctx.imgTags\<close>.\<close>

definition v1_checkTagReferences ::
  "opts \<Rightarrow> image_v1 \<Rightarrow> image_tag option \<Rightarrow> image_tag list \<Rightarrow> err + (bool \<times> image_tag list)" where
  "v1_checkTagReferences opts img imgTag imgTags =
     (if take (length (o_name opts)) (i1_docker_id img) = o_name opts
      then (if \<not> o_force opts \<and> length imgTags > 1
            then Inl (DockerError (conflict_message (o_name opts)))
            else Inr (False, imgTags))
      else if length imgTags > 1
      then (case imgTag of
              None \<Rightarrow> Inl (AssertionError ''ctx.imgTag (object) is required'')
            | Some t \<Rightarrow> Inr (True, [t]))
      else Inr (False, imgTags))"

text \<open>
  \<^verbatim>\<open>getImgsToDelete\<close>: the arguments of every invocation of the continuation \<^verbatim>\<open>cb\<close>, in
  order, the \<^verbatim>\<open>changes\<close> array and \<^verbatim>\<open>ctx.imgsToDelete\<close>. In the partial branch
  \<^verbatim>\<open>err\<close> is null, which \<^verbatim>\<open>format\<close> prints as \<^verbatim>\<open>null\<close>.
\<close>

definition v1_getImgsToDelete ::
  "env \<Rightarrow> db \<Rightarrow> opts \<Rightarrow> nat \<Rightarrow> image_v1 \<Rightarrow> change list
     \<Rightarrow> (err option list \<times> change list \<times> docker_image list) option" where
  "v1_getImgsToDelete E D opts fuel img changes =
     (case getImageAncestry E D (o_account opts) fuel (V1 img) of
        None \<Rightarrow> None
      | Some (Inl e) \<Rightarrow>
          Some ([Some (DockerErrorCause e ''could not delete image'')], changes, [])
      | Some (Inr (history, isPartialHistory)) \<Rightarrow>
          (if isPartialHistory
           then Some ([None, None],
                      changes @ [Deleted (''warning: '' @ o_name opts
                                           @ '' missing some history: null'')],
                      history)
           else Some ([None], changes, history)))"

fun untagHeads :: "env \<Rightarrow> db \<Rightarrow> image_tag list \<Rightarrow> change list \<Rightarrow> delete_result" where
  "untagHeads E D [] changes = (D, None, changes)"
| "untagHeads E D (imgTag # rest) changes =
     (case ImageTag_del E D imgTag of
        Inl e \<Rightarrow> (D, Some e, changes)
      | Inr D' \<Rightarrow>
          untagHeads E D' rest (changes @ [Untagged (t1_repo imgTag @ '':'' @ t1_tag imgTag)]))"

text \<open>Modelled from the spec: \<^verbatim>\<open>Image.update\<close> (\<^verbatim>\<open>lib/models/image.js\<close>) is not among
  the sources; it rewrites the given fields of the record with the given key.\<close>

definition Image_update :: "env \<Rightarrow> db \<Rightarrow> image_v1 \<Rightarrow> string list \<Rightarrow> bool \<Rightarrow> err + db" where
  "Image_update E D img new_heads clear_head =
     (case moray_fault E (UpdateObj docker_images (image_key img)) of
        Some e \<Rightarrow> Inl e
      | None \<Rightarrow>
          Inr (D\<lparr>db_images :=
                 map (\<lambda>r. if image_key r = image_key img
                          then r\<lparr>i1_heads := new_heads,
                                 i1_head := (if clear_head then False else i1_head r)\<rparr>
                          else r)
                     (db_images D)\<rparr>))"

text \<open>The \<^verbatim>\<open>forEachPipeline\<close> over \<^verbatim>\<open>deleteOneImg\<close> (v1).\<close>

fun deleteOneImg ::
  "env \<Rightarrow> db \<Rightarrow> string \<Rightarrow> (string \<times> int) list \<Rightarrow> image_v1 list \<Rightarrow> bool \<Rightarrow> change list
     \<Rightarrow> delete_result" where
  "deleteOneImg E D ctx_docker_id dcRefcount [] hit changes = (D, None, changes)"
| "deleteOneImg E D ctx_docker_id dcRefcount (img # rest) hit changes =
     (if i1_refcount img > 1
      then
        (case Image_update E D img
                (filter (\<lambda>h. h \<noteq> ctx_docker_id) (i1_heads img))
                (i1_docker_id img = ctx_docker_id) of
           Inl e \<Rightarrow> (D, Some e, changes)
         | Inr D' \<Rightarrow> deleteOneImg E D' ctx_docker_id dcRefcount rest hit changes)
      else
        (case Image_del E D img of
           Inl delErr \<Rightarrow> (D, Some delErr, changes)
         | Inr D' \<Rightarrow>
             (let changes' = changes @ [Deleted (i1_docker_id img)];
                  isLastRef = (map_of dcRefcount (i1_docker_id img) \<noteq> None)
              in if \<not> isLastRef \<or> hit
                 then deleteOneImg E D' ctx_docker_id dcRefcount rest hit changes'
                 else
                   (let D'' = D'\<lparr>db_imgapi_deletes :=
                                   db_imgapi_deletes D' @ [i1_image_uuid img]\<rparr>
                    in (case imgapi_deleteImage E (i1_image_uuid img) of
                          Some e \<Rightarrow>
                            (if restCode e = Some ''ImageHasDependentImages''
                             then deleteOneImg E D'' ctx_docker_id dcRefcount rest True changes'
                             else (D'', Some e, changes'))
                        | None \<Rightarrow>
                            deleteOneImg E D'' ctx_docker_id dcRefcount rest hit changes')))))"

definition deleteImgs ::
  "env \<Rightarrow> db \<Rightarrow> bool \<Rightarrow> string \<Rightarrow> (string \<times> int) list \<Rightarrow> image_v1 list \<Rightarrow> change list
     \<Rightarrow> delete_result" where
  "deleteImgs E D dontDeleteImages ctx_docker_id dcRefcount imgsToDelete changes =
     (if dontDeleteImages then (D, None, changes)
      else
        (case deleteOneImg E D ctx_docker_id dcRefcount imgsToDelete False changes of
           (D', Some e, ch) \<Rightarrow> (D', Some (DockerErrorCause e ''could not delete image''), ch)
         | (D', None, ch) \<Rightarrow> (D', None, ch)))"

definition deleteImageV1 ::
  "env \<Rightarrow> db \<Rightarrow> opts \<Rightarrow> nat \<Rightarrow> image_v1 \<Rightarrow> image_tag option \<Rightarrow> delete_result option" where
  "deleteImageV1 E D opts fuel img imgTag =
     (case ensureIsHeadImage img of
        Some e \<Rightarrow> Some (D, Some e, [])
      | None \<Rightarrow>
          (case tagsForImageV1 E D (o_account opts) None (i1_docker_id img) of
             Inl e \<Rightarrow> Some (D, Some e, [])
           | Inr allTags \<Rightarrow>
               (case v1_checkTagReferences opts img imgTag allTags of
                  Inl e \<Rightarrow> Some (D, Some e, [])
                | Inr (dontDeleteImages, imgTags) \<Rightarrow>
                    (case (if dontDeleteImages then None
                           else verifyNotInUse E opts (i1_image_uuid img)) of
                       Some e \<Rightarrow> Some (D, Some e, [])
                     | None \<Rightarrow>
                         (case v1_getImgsToDelete E D opts fuel img [] of
                            None \<Rightarrow> None
                          | Some ([None], ch0, imgsToDelete) \<Rightarrow>
                              (case datacenterRefcount E (i1_index_name img) (i1_docker_id img) of
                                 Inl e \<Rightarrow>
                                   Some (D, Some (DockerErrorCause e ''could not delete image''),
                                         ch0)
                               | Inr dcRefcount \<Rightarrow>
                                   (case untagHeads E D imgTags ch0 of
                                      (D1, Some e, ch1) \<Rightarrow> Some (D1, Some e, ch1)
                                    | (D1, None, ch1) \<Rightarrow>
                                        Some (deleteImgs E D1 dontDeleteImages (i1_docker_id img)
                                                dcRefcount (v1_records imgsToDelete) ch1)))
                          | Some ([Some e], ch0, imgsToDelete) \<Rightarrow> Some (D, Some e, ch0)
                          | Some (cbs, ch0, imgsToDelete) \<Rightarrow>
                              Some (D, Some CalledBackTwice, ch0))))))"

subsection \<open>\<^verbatim>\<open>deleteImage\<close>\<close>

definition deleteImage :: "env \<Rightarrow> db \<Rightarrow> opts \<Rightarrow> nat \<Rightarrow> delete_result option" where
  "deleteImage E D opts fuel =
     (case imgFromName E D opts of
        (D', Inl e) \<Rightarrow> Some (D', Some e, [])
      | (D', Inr (None, imgTag)) \<Rightarrow>
          Some (D', Some (ResourceNotFoundError (''No such image: '' @ o_name opts)), [])
      | (D', Inr (Some (V2 img), imgTag)) \<Rightarrow>
          deleteImageV2 E D' opts fuel img
            (case imgTag of Some (TagV2 t) \<Rightarrow> Some t | Some (TagV1 t) \<Rightarrow> None | None \<Rightarrow> None)
      | (D', Inr (Some (V1 img), imgTag)) \<Rightarrow>
          deleteImageV1 E D' opts fuel img
            (case imgTag of Some (TagV1 t) \<Rightarrow> Some t | Some (TagV2 t) \<Rightarrow> None | None \<Rightarrow> None)
      | (D', Inr (Some (Faux u os), imgTag)) \<Rightarrow>
          Some (D', Some (TypeError ''ctx.img.heads is undefined''), []))"

section \<open>Tagging\<close>

text \<open>Modelled from the spec: \<^verbatim>\<open>ImageTagV2.create\<close> (\<^verbatim>\<open>lib/models/image-tag-v2.js\<close>) is
  not among the sources; like \<^verbatim>\<open>createImage\<close> of the \<^verbatim>\<open>ImageV2\<close> model it asserts its
  string parameters and puts the object under its key.\<close>

definition ImageTagV2_create ::
  "env \<Rightarrow> db \<Rightarrow> string \<Rightarrow> string \<Rightarrow> string \<Rightarrow> string option \<Rightarrow> db \<times> (err + image_tag_v2)" where
  "ImageTagV2_create E D digest owner repo tg =
     (case tg of
        None \<Rightarrow> (D, Inl (AssertionError ''params.tag (string) is required''))
      | Some tag \<Rightarrow>
          (let t = \<lparr> t2_owner_uuid = owner, t2_repo = repo, t2_tag = tag, t2_digest = digest \<rparr>
           in (case moray_fault E (PutObj docker_image_tags_v2 (image_tag_v2_key t)) of
                 Some e \<Rightarrow> (D, Inl e)
               | None \<Rightarrow>
                   (D\<lparr>db_image_tags_v2 :=
                        filter (\<lambda>r. image_tag_v2_key r \<noteq> image_tag_v2_key t) (db_image_tags_v2 D)
                        @ [t]\<rparr>,
                    Inr t))))"

record tag_opts =
  to_name :: string
  to_account :: string
  to_digest :: "string option"
  to_img :: "docker_image option"
  to_rat :: "rat option"

text \<open>\<^verbatim>\<open>opts.digest\<close> is truthy: present and not the empty string.\<close>

definition digest_given :: "tag_opts \<Rightarrow> bool" where
  "digest_given opts = (case to_digest opts of None \<Rightarrow> False | Some d \<Rightarrow> d \<noteq> [])"

definition the_digest :: "tag_opts \<Rightarrow> string" where
  "the_digest opts = (case to_digest opts of None \<Rightarrow> [] | Some d \<Rightarrow> d)"

definition tagImage :: "env \<Rightarrow> db \<Rightarrow> tag_opts \<Rightarrow> db \<times> (err + image_tag_v2)" where
  "tagImage E D opts =
     (case (case to_rat opts of
              Some r \<Rightarrow> Inr r
            | None \<Rightarrow> parseRepoAndTag E (to_name opts)) of
        Inl msg \<Rightarrow> (D, Inl (DockerError msg))
      | Inr r \<Rightarrow>
          (case (if digest_given opts then Inr (the_digest opts)
                 else
                   (case to_img opts of
                      None \<Rightarrow> Inl (AssertionError ''opts.img or opts.digest must be provided'')
                    | Some img \<Rightarrow>
                        (if isV1Image img
                         then Inl (DockerError
                                ''Cannot tag old v1 images - repull or rebuild the image'')
                         else Inr (img_Id img)))) of
             Inl e \<Rightarrow> (D, Inl e)
           | Inr digest \<Rightarrow>
               ImageTagV2_create E D digest (to_account opts) (localName r) (rat_tag r)))"

section \<open>Test fixtures\<close>

definition env0 :: env where
  "env0 = \<lparr> moray_fault = (\<lambda>c. None),
            imgapi_getImage = (\<lambda>u. None),
            imgapi_getSmartos = (\<lambda>n a. Inl (ServiceError ''ResourceNotFound'' 404 n)),
            imgapi_deleteImage = (\<lambda>u. None),
            vmapi_listVms = (\<lambda>s i owner. Inr []),
            datacenterRefcount = (\<lambda>ix i. Inr []),
            parseRepoAndTag =
              (\<lambda>n. Inr \<lparr> localName = n, rat_tag = Some ''latest'', rat_digest = None \<rparr>),
            isUUID = (\<lambda>n. False),
            parseManifestLayers = (\<lambda>s. Some []),
            imgUuidFromDockerDigests = concat,
            dockerIdFromDigest = drop 7,
            shortDockerId = take 12,
            vmUuidToShortDockerId = take 12 \<rparr>"

text \<open>A stand-in for \<^verbatim>\<open>drc.parseRepoAndTag\<close>: \<^verbatim>\<open>repo@digest\<close>, \<^verbatim>\<open>repo:tag\<close> or
  \<^verbatim>\<open>repo\<close> (tag \<^verbatim>\<open>latest\<close>).\<close>

definition parse_fixture :: "string \<Rightarrow> string + rat" where
  "parse_fixture n =
     (if CHR ''@'' \<in> set n
      then Inr \<lparr> localName = rev (tl (dropWhile (\<lambda>c. c \<noteq> CHR ''@'') (rev n))),
                 rat_tag = None,
                 rat_digest = Some (rev (takeWhile (\<lambda>c. c \<noteq> CHR ''@'') (rev n))) \<rparr>
      else if CHR '':'' \<in> set n
              \<and> CHR ''/'' \<notin> set (takeWhile (\<lambda>c. c \<noteq> CHR '':'') (rev n))
      then Inr \<lparr> localName = rev (tl (dropWhile (\<lambda>c. c \<noteq> CHR '':'') (rev n))),
                 rat_tag = Some (rev (takeWhile (\<lambda>c. c \<noteq> CHR '':'') (rev n))),
                 rat_digest = None \<rparr>
      else Inr \<lparr> localName = n, rat_tag = Some ''latest'', rat_digest = None \<rparr>)"

text \<open>IMGAPI has lost the blob \<open>u-gone\<close> and reports dependent images for \<open>u-dep\<close>;
  the manifest \<open>m2\<close> has the two layers \<open>u-\<close> and \<open>dep\<close>, whose derived uuids are
  \<open>u-\<close> and \<open>u-dep\<close>; the datacenter-wide count is defined for both images of the v1
  chain below.\<close>

definition env1 :: env where
  "env1 = env0 \<lparr> parseRepoAndTag := parse_fixture,
      imgapi_getImage :=
        (\<lambda>u. if u = ''u-gone'' then Some (ServiceError ''ResourceNotFound'' 404 ''image not found'')
             else None),
      imgapi_deleteImage :=
        (\<lambda>u. if u = ''u-dep''
             then Some (ServiceError ''ImageHasDependentImages'' 422 ''image has dependents'')
             else None),
      parseManifestLayers := (\<lambda>m. if m = ''m2'' then Some [''u-'', ''dep''] else Some []),
      datacenterRefcount :=
        (\<lambda>ix i. Inr [(''cafe0123456789'', 1), (''beef0123456789'', 1)]) \<rparr>"

definition mk_opts :: "string \<Rightarrow> bool \<Rightarrow> opts" where
  "mk_opts n f = \<lparr> o_name = n, o_account = ''alice'', o_index_name = None,
                   o_includeSmartos = False, o_force = f \<rparr>"

definition mk_tag2 :: "string \<Rightarrow> string \<Rightarrow> string \<Rightarrow> image_tag_v2" where
  "mk_tag2 repo tg digest =
     \<lparr> t2_owner_uuid = ''alice'', t2_repo = repo, t2_tag = tg, t2_digest = digest \<rparr>"

definition mk_tag1 :: "string \<Rightarrow> string \<Rightarrow> string \<Rightarrow> string \<Rightarrow> image_tag" where
  "mk_tag1 ix repo tg docker_id =
     \<lparr> t1_owner_uuid = ''alice'', t1_index_name = ix, t1_repo = repo, t1_tag = tg,
       t1_docker_id = docker_id \<rparr>"

definition mk_v2 :: "string \<Rightarrow> string \<Rightarrow> bool \<Rightarrow> string \<Rightarrow> hist list \<Rightarrow> image_v2" where
  "mk_v2 digest parent is_head uuid hs =
     \<lparr> i2_owner_uuid = ''alice'', i2_digest = digest, i2_head = is_head, i2_image_uuid = uuid,
       i2_manifest_digest = ''sha256:m'' @ digest, i2_manifest_str = ''{}'',
       i2_parent = parent, i2_created = 0, i2_size = 0, i2_history = hs,
       i2_diff_ids = [], i2_container_config_Cmd = None \<rparr>"

definition mk_v1 :: "string \<Rightarrow> string \<Rightarrow> string \<Rightarrow> bool \<Rightarrow> string \<Rightarrow> int \<Rightarrow> image_v1" where
  "mk_v1 ix docker_id parent is_head uuid rc =
     \<lparr> i1_owner_uuid = ''alice'', i1_index_name = ix, i1_docker_id = docker_id, i1_head = is_head,
       i1_heads = [], i1_parent = parent, i1_image_uuid = uuid, i1_refcount = rc,
       i1_created = 0, i1_size = 0, i1_container_config_Cmd = None \<rparr>"

definition db_empty :: db where
  "db_empty = \<lparr> db_images = [], db_image_tags = [], db_images_v2 = [],
                db_image_tags_v2 = [], db_imgapi_deletes = [] \<rparr>"

text \<open>A v2 chain of five records \<open>d1 \<rightarrow> d2 \<rightarrow> d3 \<rightarrow> d4 \<rightarrow> d5\<close> whose third record is missing
  from the store.\<close>

definition db_broken_chain :: db where
  "db_broken_chain = db_empty \<lparr> db_images_v2 :=
     [mk_v2 ''sha256:d1'' ''sha256:d2'' True ''u1'' [],
      mk_v2 ''sha256:d2'' ''sha256:d3'' False ''u2'' [],
      mk_v2 ''sha256:d4'' ''sha256:d5'' False ''u4'' [],
      mk_v2 ''sha256:d5'' [] False ''u5'' []] \<rparr>"

text \<open>IMGAPI answers a delete of \<open>u\<close> with \<^verbatim>\<open>ImageHasDependentImages\<close>.\<close>

definition answersDependent :: "env \<Rightarrow> string \<Rightarrow> bool" where
  "answersDependent E u =
     (case imgapi_deleteImage E u of
        Some e \<Rightarrow> restCode e = Some ''ImageHasDependentImages''
      | None \<Rightarrow> False)"

definition db_two_tags :: db where
  "db_two_tags = db_empty \<lparr> db_images_v2 := [mk_v2 ''sha256:aaa'' [] True ''u-a'' []],
       db_image_tags_v2 := [mk_tag2 ''repo'' ''latest'' ''sha256:aaa'',
                             mk_tag2 ''repo'' ''v1'' ''sha256:aaa''] \<rparr>"

definition img_cafe :: image_v1 where
  "img_cafe = mk_v1 ''docker.io'' ''cafe0123456789'' ''beef0123456789'' True ''u-dep'' 1"

definition img_beef :: image_v1 where
  "img_beef = (mk_v1 ''docker.io'' ''beef0123456789'' [] False ''u-beef'' 1)
                \<lparr> i1_heads := [''cafe0123456789''] \<rparr>"

definition db_v1_chain :: db where
  "db_v1_chain = db_empty \<lparr> db_images := [img_cafe, img_beef],
       db_image_tags := [mk_tag1 ''docker.io'' ''busybox'' ''latest'' ''cafe0123456789''] \<rparr>"

text \<open>The same head image, its parent record missing.\<close>

definition db_v1_broken :: db where
  "db_v1_broken = db_empty \<lparr> db_images := [img_cafe],
       db_image_tags := [mk_tag1 ''docker.io'' ''busybox'' ''latest'' ''cafe0123456789''] \<rparr>"

definition db_ambiguous :: db where
  "db_ambiguous = db_empty \<lparr>
      db_images := [mk_v1 ''docker.io'' ''ab12'' [] True ''u1'' 1,
                    mk_v1 ''docker.io'' ''ab34'' [] True ''u2'' 1,
                    mk_v1 ''docker.io'' ''cd56'' [] True ''u3'' 1,
                    mk_v1 ''quay.io'' ''cd56'' [] True ''u4'' 1],
      db_images_v2 := [mk_v2 ''sha256:ef12'' [] True ''u5'' [],
                       mk_v2 ''sha256:ef34'' [] True ''u6'' []] \<rparr>"

definition hist3 :: "hist list" where
  "hist3 = [\<lparr> h_comment = None, h_created_ms = 1000, h_created_by = Some ''ADD file'',
              h_size = Some 5 \<rparr>,
            \<lparr> h_comment = None, h_created_ms = 2500, h_created_by = Some ''ENV x'',
              h_size = None \<rparr>,
            \<lparr> h_comment = None, h_created_ms = 3000, h_created_by = Some ''CMD sh'',
              h_size = None \<rparr>]"

definition img_h1 :: image_v2 where
  "img_h1 = mk_v2 ''sha256:h1'' [] True ''u-h'' hist3"

definition db_history :: db where
  "db_history = db_empty \<lparr> db_images_v2 := [img_h1] \<rparr>"

text \<open>A v2 image with a stored parent record and an embedded history of one entry only.\<close>

definition img_s1 :: image_v2 where
  "img_s1 = mk_v2 ''sha256:51'' ''sha256:52'' True ''u-s1'' (take 1 hist3)"

definition img_s2 :: image_v2 where
  "img_s2 = mk_v2 ''sha256:52'' [] False ''u-s2'' []"

definition db_short_history :: db where
  "db_short_history = db_empty \<lparr> db_images_v2 := [img_s1, img_s2] \<rparr>"

definition digest_a :: string where
  "digest_a = ''sha256:aaaaaaaaaaaaaaaaaaaaaaaaaaaaaaaaaaaaaaaaaaaaaaaaaaaaaaaaaaaaaaaa''"

text \<open>A tagged v2 record whose blob \<open>u-gone\<close> is no longer in IMGAPI.\<close>

definition img_stale :: image_v2 where
  "img_stale = mk_v2 digest_a [] True ''u-gone'' []"

definition db_stale :: db where
  "db_stale = db_empty \<lparr> db_images_v2 := [img_stale],
       db_image_tags_v2 := [mk_tag2 ''busybox'' ''latest'' digest_a] \<rparr>"

text \<open>A v1 image tagged \<open>cafe:latest\<close> and a v2 image whose digest starts with \<open>cafe\<close>.\<close>

definition db_name_vs_id :: db where
  "db_name_vs_id = db_empty \<lparr>
      db_images := [mk_v1 ''docker.io'' ''1111'' [] True ''u1'' 1],
      db_image_tags := [mk_tag1 ''docker.io'' ''cafe'' ''latest'' ''1111''],
      db_images_v2 := [mk_v2 ''sha256:cafe77'' [] True ''u7'' []] \<rparr>"

text \<open>A v2 image over the two layers of manifest \<open>m2\<close>; its blob is \<open>u-dep\<close>.\<close>

definition img_top :: image_v2 where
  "img_top = (mk_v2 ''sha256:d0d0'' [] True ''u-dep'' [])
               \<lparr> i2_manifest_str := ''m2'', i2_diff_ids := [''d1'', ''d2''] \<rparr>"

definition db_layers :: db where
  "db_layers = db_empty \<lparr> db_images_v2 := [img_top] \<rparr>"

section \<open>Unfolding rules\<close>

lemmas store_defs = Image_list_def ImageTag_list_def ImageV2_list_def ImageTagV2_list_def
  listObjs_def delObj_def matches_def matches_val_def image_field_def image_tag_field_def
  image_v2_field_def image_tag_v2_field_def Image_del_def ImageTag_del_def ImageV2_del_def
  ImageTagV2_del_def image_key_def image_tag_key_def objectKey_def image_tag_v2_key_def
  tagsForImageV1_def tagsForImageV2_def Image_update_def

lemmas fixture_defs = env0_def env1_def mk_v1_def mk_v2_def db_empty_def mk_opts_def
  parse_fixture_def mk_tag1_def mk_tag2_def db_two_tags_def img_cafe_def img_beef_def
  db_v1_chain_def db_v1_broken_def db_ambiguous_def hist3_def img_h1_def db_history_def
  img_s1_def img_s2_def db_short_history_def
  digest_a_def img_stale_def db_stale_def db_name_vs_id_def img_top_def db_layers_def

lemmas resolver_defs = imgFromName_def findByDigests_def findByNameV2_V1_def imgFromNameV2_def
  imgFromNameV1_def v2_findByName_def v2_findImage_def v2_findImage_filter_def
  v1_findByName_def v1_findImage_def v1_findImage_filter_def imgFromDigest_def
  imgFromManifestDigest_def checkImageInImgapi_def tag_constraint_def index_constraint_def
  is_hex_def is_sha256_hex_def imgFromImgInfoV1_def imgFromImgInfoV2_def

section \<open>The ancestry walk tolerates a missing parent\<close>

lemma addAndGetNextItem_chain:
  assumes "rs \<noteq> []" and "parent_chain E D account rs"
    and "img_parent (last rs) \<noteq> []"
    and "lookupParent E D account (last rs) = Inl e"
    and "length rs \<le> fuel"
  shows "addAndGetNextItem E D account fuel acc (hd rs)
           = Some (checkAndCallback (Some e) (acc @ rs))"
  using assms
proof (induction rs arbitrary: acc fuel)
  case Nil
  then show ?case by simp
next
  case (Cons r rs)
  from Cons.prems(5) obtain n where fuel: "fuel = Suc n" and n: "length rs \<le> n"
    by (cases fuel) auto
  show ?case
  proof (cases rs)
    case Nil
    with Cons.prems fuel show ?thesis by simp
  next
    case (Cons y zs)
    with Cons.prems have p: "img_parent r \<noteq> []" and l: "lookupParent E D account r = Inr y"
      and ch: "parent_chain E D account rs" by simp_all
    have "addAndGetNextItem E D account n (acc @ [r]) (hd rs)
            = Some (checkAndCallback (Some e) ((acc @ [r]) @ rs))"
      using Cons.IH [of n "acc @ [r]"] Cons.prems ch n Cons by simp
    with p l fuel Cons show ?thesis by simp
  qed
qed

text \<open>
  C6. When the walk from an image has found the records \<open>rs\<close> (the image first, each next
  one the parent of the one before) and the lookup of the next parent fails with error
  \<open>e\<close>, then \<open>getImageAncestry\<close> calls back: with the records found so far and
  \<open>isPartialAncestry = true\<close> when \<open>e\<close> is a ResourceNotFound error, and with the error
  \<open>e\<close> itself when it is of any other kind.
\<close>

theorem getImageAncestry_partial:
  assumes "rs \<noteq> []" and "parent_chain E D account rs"
    and "img_parent (last rs) \<noteq> []"
    and "lookupParent E D account (last rs) = Inl e"
    and "length rs \<le> fuel"
  shows "getImageAncestry E D account fuel (hd rs)
           = Some (if restCode e = Some ''ResourceNotFound'' then Inr (rs, True) else Inl e)"
  using addAndGetNextItem_chain [OF assms, of "[]"] assms(1)
  by (cases rs) (simp_all add: getImageAncestry_def checkAndCallback_def)

lemma broken_chain_walk:
  "parent_chain env0 db_broken_chain ''alice''
      [V2 (mk_v2 ''sha256:d1'' ''sha256:d2'' True ''u1'' []),
       V2 (mk_v2 ''sha256:d2'' ''sha256:d3'' False ''u2'' [])]"
  by (simp add: db_broken_chain_def resolver_defs store_defs fixture_defs)

lemma broken_chain_lookup:
  "lookupParent env0 db_broken_chain ''alice''
      (V2 (mk_v2 ''sha256:d2'' ''sha256:d3'' False ''u2'' []))
   = Inl (ResourceNotFoundError ''No such image: sha256:d3'')"
  by (simp add: db_broken_chain_def resolver_defs store_defs fixture_defs)

theorem getImageAncestry_partial_witness:
  "getImageAncestry env0 db_broken_chain ''alice'' 5
      (V2 (mk_v2 ''sha256:d1'' ''sha256:d2'' True ''u1'' []))
   = Some (Inr ([V2 (mk_v2 ''sha256:d1'' ''sha256:d2'' True ''u1'' []),
                 V2 (mk_v2 ''sha256:d2'' ''sha256:d3'' False ''u2'' [])], True))"
  using getImageAncestry_partial [of
      "[V2 (mk_v2 ''sha256:d1'' ''sha256:d2'' True ''u1'' []),
        V2 (mk_v2 ''sha256:d2'' ''sha256:d3'' False ''u2'' [])]"
      env0 db_broken_chain "''alice''" "ResourceNotFoundError ''No such image: sha256:d3''" 5]
    broken_chain_walk broken_chain_lookup
  by (simp add: mk_v2_def)

section \<open>Deleting a v1 image that is not a head\<close>

text \<open>
  C2. For a v1 image record whose \<open>head\<close> flag is false, the v1 delete engine stops at its
  first stage with the Conflict error whose message lists the image's \<open>heads\<close>, whatever
  \<open>force\<close> is; the store (tag records, image records, the log of IMGAPI deletions) is
  returned as it was and the changeLog is empty. The same is the outcome of
  \<open>deleteImage\<close> whenever the name resolves to such a record.
\<close>

theorem deleteImage_v1_not_head:
  assumes "\<not> i1_head img"
  shows "deleteImageV1 E D opts fuel img imgTag
           = Some (D, Some (DockerError
               (''Conflict, '' @ take 12 (i1_docker_id img)
                @ '' wasn't deleted because it is an intermediate layer being referenced by ''
                @ join_with '', '' (map (take 12) (i1_heads img)))), [])
         \<and> (imgFromName E D opts = (D', Inr (Some (V1 img), t)) \<longrightarrow>
              deleteImage E D opts fuel
                = Some (D', Some (DockerError
               (''Conflict, '' @ take 12 (i1_docker_id img)
                @ '' wasn't deleted because it is an intermediate layer being referenced by ''
                @ join_with '', '' (map (take 12) (i1_heads img)))), []))"
  using assms by (simp add: deleteImageV1_def deleteImage_def ensureIsHeadImage_def)

lemma resolve_beef:
  "imgFromName env1 db_v1_chain (mk_opts ''beef0123'' True)
     = (db_v1_chain, Inr (Some (V1 img_beef), None))"
  by (simp add: resolver_defs store_defs fixture_defs)

theorem deleteImage_v1_not_head_witness:
  "\<not> i1_head img_beef
   \<and> deleteImage env1 db_v1_chain (mk_opts ''beef0123'' True) 5
       = Some (db_v1_chain,
               Some (DockerError (''Conflict, beef01234567 wasn't deleted because it is an ''
                                   @ ''intermediate layer being referenced by cafe01234567'')),
               [])"
  using deleteImage_v1_not_head [where img = img_beef and E = env1 and D = db_v1_chain
      and opts = "mk_opts ''beef0123'' True" and D' = db_v1_chain and t = None and fuel = 5]
    resolve_beef
  by (simp add: img_beef_def mk_v1_def)

section \<open>Deleting a v2 image that has several tags\<close>

text \<open>
  C1. For a v2 image that has more than one tag: when resolution produced a tag record
  \<open>t\<close> (the name was a tag name), the delete removes exactly the tag record with the key
  of \<open>t\<close>, leaves the image records, the other tag records and IMGAPI untouched and
  returns the changeLog \<open>[Untagged repo:tag]\<close>; when resolution produced no tag record
  (the name was a digest or a digest prefix) and \<open>force\<close> is false, the delete fails with
  the Conflict error and changes nothing.
\<close>

theorem deleteImageV2_many_tags:
  assumes "tagsForImageV2 E D (o_account opts) img = Inr imgTags"
    and "length imgTags > 1"
  shows "(moray_fault E (DelObj docker_image_tags_v2 (image_tag_v2_key t)) = None \<longrightarrow>
            deleteImageV2 E D opts fuel img (Some t)
              = Some (D\<lparr>db_image_tags_v2 :=
                          filter (\<lambda>r. image_tag_v2_key r \<noteq> image_tag_v2_key t)
                                 (db_image_tags_v2 D)\<rparr>,
                      None, [Untagged (t2_repo t @ '':'' @ t2_tag t)]))
       \<and> (\<not> o_force opts \<longrightarrow>
            deleteImageV2 E D opts fuel img None
              = Some (D, Some (DockerError (conflict_message
                          (shortDockerId E (dockerIdFromDigest E (i2_digest img))))), []))"
  using assms by (simp add: deleteImageV2_def ImageTagV2_del_def delObj_def)

lemma two_tags_listed:
  "tagsForImageV2 env1 db_two_tags ''alice'' (mk_v2 ''sha256:aaa'' [] True ''u-a'' [])
     = Inr [mk_tag2 ''repo'' ''latest'' ''sha256:aaa'', mk_tag2 ''repo'' ''v1'' ''sha256:aaa'']"
  by (simp add: store_defs fixture_defs)

theorem deleteImageV2_many_tags_witness:
  "deleteImageV2 env1 db_two_tags (mk_opts ''repo:latest'' False) 5
       (mk_v2 ''sha256:aaa'' [] True ''u-a'' []) (Some (mk_tag2 ''repo'' ''latest'' ''sha256:aaa''))
     = Some (db_two_tags \<lparr> db_image_tags_v2 := [mk_tag2 ''repo'' ''v1'' ''sha256:aaa''] \<rparr>,
             None, [Untagged ''repo:latest''])
   \<and> deleteImageV2 env1 db_two_tags (mk_opts ''aaa'' False) 5
       (mk_v2 ''sha256:aaa'' [] True ''u-a'' []) None
     = Some (db_two_tags,
             Some (DockerError (''conflict: unable to delete aaa (must be forced) - ''
                                 @ ''image is referenced in one or more repositories'')),
             [])"
  using deleteImageV2_many_tags [where E = env1 and D = db_two_tags
      and opts = "mk_opts ''repo:latest'' False"
      and img = "mk_v2 ''sha256:aaa'' [] True ''u-a'' []"
      and imgTags = "[mk_tag2 ''repo'' ''latest'' ''sha256:aaa'',
                      mk_tag2 ''repo'' ''v1'' ''sha256:aaa'']"
      and t = "mk_tag2 ''repo'' ''latest'' ''sha256:aaa''" and fuel = 5]
    deleteImageV2_many_tags [where E = env1 and D = db_two_tags
      and opts = "mk_opts ''aaa'' False"
      and img = "mk_v2 ''sha256:aaa'' [] True ''u-a'' []"
      and imgTags = "[mk_tag2 ''repo'' ''latest'' ''sha256:aaa'',
                      mk_tag2 ''repo'' ''v1'' ''sha256:aaa'']"
      and t = "mk_tag2 ''repo'' ''latest'' ''sha256:aaa''" and fuel = 5]
    two_tags_listed
  by (simp add: fixture_defs image_tag_v2_key_def conflict_message_def)

text \<open>The end-to-end scenario of the spec: two tags on one digest, delete by tag name,
  then by ID prefix.\<close>

lemma deleteImage_untag_scenario:
  "deleteImage env1 db_two_tags (mk_opts ''repo:latest'' False) 5
     = Some (db_two_tags \<lparr> db_image_tags_v2 := [mk_tag2 ''repo'' ''v1'' ''sha256:aaa''] \<rparr>,
             None, [Untagged ''repo:latest''])"
  "deleteImage env1 db_two_tags (mk_opts ''aaa'' False) 5
     = Some (db_two_tags,
             Some (DockerError (''conflict: unable to delete aaa (must be forced) - ''
                                 @ ''image is referenced in one or more repositories'')),
             [])"
  by (simp_all add: deleteImage_def deleteImageV2_def conflict_message_def resolver_defs
        store_defs fixture_defs)

section \<open>Tagging a v1 image\<close>

lemma ImageTagV2_create_err: "ImageTagV2_create E D d ow rp tg = (D', Inl e) \<Longrightarrow> D' = D"
  by (auto simp: ImageTagV2_create_def Let_def split: option.splits)

lemma ImageTagV2_create_ok:
  "ImageTagV2_create E D d ow rp tg = (D', Inr t) \<Longrightarrow> t2_digest t = d"
  by (auto simp: ImageTagV2_create_def Let_def split: option.splits)

lemma not_isV1Image: "\<not> isV1Image x \<Longrightarrow> \<exists>i. x = V2 i \<and> img_Id x = i2_digest i"
  by (cases x) simp_all

text \<open>
  C10. When no digest is supplied and the image is a v1 image (it has no
  \<^verbatim>\<open>manifest_str\<close>), \<open>tagImage\<close> fails and leaves the store as it was. Whenever
  \<open>tagImage\<close> creates a tag record, its digest is the explicitly supplied digest or the
  digest of a v2 image; whenever it fails, the store is unchanged.
\<close>

theorem tagImage_v1_rejected:
  "(\<not> digest_given opts \<and> to_img opts = Some img \<and> isV1Image img \<longrightarrow>
      (\<exists>e. tagImage E D opts = (D, Inl e)))
   \<and> (tagImage E D opts = (D', Inr t) \<longrightarrow>
        ((digest_given opts \<and> to_digest opts = Some (t2_digest t))
         \<or> (\<not> digest_given opts
             \<and> (\<exists>i. to_img opts = Some (V2 i) \<and> t2_digest t = i2_digest i))))
   \<and> (tagImage E D opts = (D', Inl e') \<longrightarrow> D' = D)"
proof (intro conjI impI)
  assume "\<not> digest_given opts \<and> to_img opts = Some img \<and> isV1Image img"
  then show "\<exists>e. tagImage E D opts = (D, Inl e)"
    by (auto simp: tagImage_def split: sum.splits option.splits)
next
  assume "tagImage E D opts = (D', Inr t)"
  then show "(digest_given opts \<and> to_digest opts = Some (t2_digest t))
         \<or> (\<not> digest_given opts
             \<and> (\<exists>i. to_img opts = Some (V2 i) \<and> t2_digest t = i2_digest i))"
    by (auto simp: tagImage_def digest_given_def the_digest_def
             split: sum.splits option.splits if_splits
             dest!: ImageTagV2_create_ok not_isV1Image)
next
  assume "tagImage E D opts = (D', Inl e')"
  then show "D' = D"
    by (auto simp: tagImage_def split: sum.splits option.splits if_splits
             dest: ImageTagV2_create_err)
qed

lemma tag_v1_evaluated:
  "tagImage env1 db_v1_chain
      \<lparr> to_name = ''busybox:new'', to_account = ''alice'', to_digest = None,
        to_img = Some (V1 img_cafe), to_rat = None \<rparr>
     = (db_v1_chain,
        Inl (DockerError ''Cannot tag old v1 images - repull or rebuild the image''))"
  by (simp add: tagImage_def digest_given_def fixture_defs)

lemma tag_v2_evaluated:
  "tagImage env1 db_history
      \<lparr> to_name = ''busybox:new'', to_account = ''alice'', to_digest = None,
        to_img = Some (V2 img_h1), to_rat = None \<rparr>
     = (db_history \<lparr> db_image_tags_v2 := [mk_tag2 ''busybox'' ''new'' ''sha256:h1''] \<rparr>,
        Inr (mk_tag2 ''busybox'' ''new'' ''sha256:h1''))"
  by (simp add: tagImage_def digest_given_def ImageTagV2_create_def Let_def store_defs
        fixture_defs)

theorem tagImage_v1_rejected_witness:
  "isV1Image (V1 img_cafe)
   \<and> \<not> digest_given \<lparr> to_name = ''busybox:new'', to_account = ''alice'', to_digest = None,
                        to_img = Some (V1 img_cafe), to_rat = None \<rparr>
   \<and> (\<exists>e. tagImage env1 db_v1_chain
             \<lparr> to_name = ''busybox:new'', to_account = ''alice'', to_digest = None,
               to_img = Some (V1 img_cafe), to_rat = None \<rparr> = (db_v1_chain, Inl e))
   \<and> (\<exists>i. Some (V2 img_h1) = Some (V2 i) \<and> t2_digest (mk_tag2 ''busybox'' ''new'' ''sha256:h1'')
             = i2_digest i)"
  using tagImage_v1_rejected [where opts =
      "\<lparr> to_name = ''busybox:new'', to_account = ''alice'', to_digest = None,
         to_img = Some (V1 img_cafe), to_rat = None \<rparr>" and img = "V1 img_cafe"
      and E = env1 and D = db_v1_chain and D' = db_v1_chain
      and t = "mk_tag2 ''busybox'' ''new'' ''sha256:h1''"
      and e' = "DockerError ''Cannot tag old v1 images - repull or rebuild the image''"]
    tagImage_v1_rejected [where opts =
      "\<lparr> to_name = ''busybox:new'', to_account = ''alice'', to_digest = None,
         to_img = Some (V2 img_h1), to_rat = None \<rparr>" and img = "V2 img_h1"
      and E = env1 and D = db_history
      and D' = "db_history \<lparr> db_image_tags_v2 := [mk_tag2 ''busybox'' ''new'' ''sha256:h1''] \<rparr>"
      and t = "mk_tag2 ''busybox'' ''new'' ''sha256:h1''"
      and e' = "DockerError ''Cannot tag old v1 images - repull or rebuild the image''"]
    tag_v1_evaluated tag_v2_evaluated
  by (simp add: digest_given_def)

section \<open>History\<close>









section \<open>Ambiguous ID prefixes\<close>

lemma two_or_more: "2 \<le> length xs \<Longrightarrow> \<exists>x y zs. xs = x # y # zs"
  by (cases xs; cases "tl xs") auto

lemma hex_not_sha256: "is_hex s \<Longrightarrow> \<not> is_sha256_hex s"
proof
  assume h: "is_hex s" and s: "is_sha256_hex s"
  from s have "take 7 s = ''sha256:''" by (simp add: is_sha256_hex_def)
  then have "CHR '':'' \<in> set (take 7 s)" by simp
  then have "CHR '':'' \<in> set s" by (rule in_set_takeD)
  with h have "CHR '':'' \<in> set ''0123456789abcdef''"
    unfolding is_hex_def list_all_iff by blast
  then show False by simp
qed

lemma imgFromNameV1_ambiguous:
  assumes "v1_findByName E D account ix r = Inr None"
      and "is_hex (localName r)" and "length (localName r) < 64"
      and "Image_list E D ([(''docker_id'', FStr (localName r @ ''*'')),
                          (''owner_uuid'', FStr account)] @ index_constraint ix) = Inr imgs"
      and "length imgs \<ge> 2"
  shows "imgFromNameV1 E D account ix r
        = (D, if length (remdups (map i1_docker_id imgs)) = 1
              then Inl (AmbiguousDockerImageIdError (localName r) (map i1_index_name imgs))
              else Inr (None, None))"
proof -
  from assms(5) obtain x y zs where imgs: "imgs = x # y # zs"
    using two_or_more by blast
  have f: "v1_findImage_filter account ix r None
           = Some ([(''docker_id'', FStr (localName r @ ''*'')),
                          (''owner_uuid'', FStr account)] @ index_constraint ix)"
    using assms(2,3) by (simp add: v1_findImage_filter_def)
  have g: "v1_findImage E D account ix r None
       = (if length (remdups (map i1_docker_id imgs)) = 1
              then Inl (AmbiguousDockerImageIdError (localName r) (map i1_index_name imgs))
              else Inr None)"
    using assms(4) imgs by (simp add: v1_findImage_def f del: remdups.simps)
  show ?thesis
    by (simp add: imgFromNameV1_def assms(1) g del: remdups.simps)
qed

lemma imgFromNameV2_ambiguous:
  assumes "v2_findByName E D account r = Inr None"
      and "is_hex (localName r)"
      and "ImageV2_list E D [(''digest'', FStr (''sha256:'' @ localName r @ ''*'')),
                           (''owner_uuid'', FStr account)] = Inr imgs2"
      and "length imgs2 \<ge> 2"
  shows "imgFromNameV2 E D account r = (D, Inr (None, None))"
proof -
  from assms(4) obtain x y zs where imgs: "imgs2 = x # y # zs"
    using two_or_more by blast
  have f: "v2_findImage_filter account r None
        = Some [(''digest'', FStr (''sha256:'' @ localName r @ ''*'')),
                           (''owner_uuid'', FStr account)]"
    using assms(2) hex_not_sha256 by (simp add: v2_findImage_filter_def)
  have g: "v2_findImage E D account r None = Inr None"
    using assms(3) imgs by (simp add: v2_findImage_def f)
  show ?thesis
    by (simp add: imgFromNameV2_def assms(1) g)
qed

text \<open>
  C7. In the v1 resolver, when no tag record matches the name and the name is an ID prefix
  (hex, shorter than 64) for which the store lists two or more records: if these records
  have two or more distinct \<open>docker_id\<close>s, the resolver returns no record and no error;
  if they all share one \<open>docker_id\<close> (so they come from different index hosts), it fails
  with \<open>AmbiguousDockerImageIdError\<close> naming those hosts. In the v2 resolver, when no
  tag record matches and the digest prefix lists two or more records, the resolver returns
  no record and no error. In all three cases the store is left as it was.
\<close>

theorem ambiguous_prefix:
  "(v1_findByName E D account ix r = Inr None
      \<and> is_hex (localName r) \<and> length (localName r) < 64
      \<and> Image_list E D ([(''docker_id'', FStr (localName r @ ''*'')),
                          (''owner_uuid'', FStr account)] @ index_constraint ix) = Inr imgs
      \<and> length imgs \<ge> 2 \<longrightarrow>
      imgFromNameV1 E D account ix r
        = (D, if length (remdups (map i1_docker_id imgs)) = 1
              then Inl (AmbiguousDockerImageIdError (localName r) (map i1_index_name imgs))
              else Inr (None, None)))
   \<and> (v2_findByName E D account r = Inr None
      \<and> is_hex (localName r)
      \<and> ImageV2_list E D [(''digest'', FStr (''sha256:'' @ localName r @ ''*'')),
                           (''owner_uuid'', FStr account)] = Inr imgs2
      \<and> length imgs2 \<ge> 2 \<longrightarrow>
      imgFromNameV2 E D account r = (D, Inr (None, None)))"
  using imgFromNameV1_ambiguous [of E D account ix r imgs]
    imgFromNameV2_ambiguous [of E D account r imgs2]
  by blast

lemma ambiguous_fixture_lists:
  "v1_findByName env1 db_ambiguous ''alice'' None
      \<lparr> localName = ''ab'', rat_tag = Some ''latest'', rat_digest = None \<rparr> = Inr None"
  "Image_list env1 db_ambiguous
      [(''docker_id'', FStr ''ab*''), (''owner_uuid'', FStr ''alice'')]
     = Inr [mk_v1 ''docker.io'' ''ab12'' [] True ''u1'' 1,
            mk_v1 ''docker.io'' ''ab34'' [] True ''u2'' 1]"
  "v1_findByName env1 db_ambiguous ''alice'' None
      \<lparr> localName = ''cd'', rat_tag = Some ''latest'', rat_digest = None \<rparr> = Inr None"
  "Image_list env1 db_ambiguous
      [(''docker_id'', FStr ''cd*''), (''owner_uuid'', FStr ''alice'')]
     = Inr [mk_v1 ''docker.io'' ''cd56'' [] True ''u3'' 1,
            mk_v1 ''quay.io'' ''cd56'' [] True ''u4'' 1]"
  "v2_findByName env1 db_ambiguous ''alice''
      \<lparr> localName = ''ef'', rat_tag = Some ''latest'', rat_digest = None \<rparr> = Inr None"
  "ImageV2_list env1 db_ambiguous
      [(''digest'', FStr ''sha256:ef*''), (''owner_uuid'', FStr ''alice'')]
     = Inr [mk_v2 ''sha256:ef12'' [] True ''u5'' [], mk_v2 ''sha256:ef34'' [] True ''u6'' []]"
  by (simp_all add: resolver_defs store_defs fixture_defs)

theorem ambiguous_prefix_witness:
  "imgFromNameV1 env1 db_ambiguous ''alice'' None
      \<lparr> localName = ''ab'', rat_tag = Some ''latest'', rat_digest = None \<rparr>
     = (db_ambiguous, Inr (None, None))
   \<and> imgFromNameV1 env1 db_ambiguous ''alice'' None
      \<lparr> localName = ''cd'', rat_tag = Some ''latest'', rat_digest = None \<rparr>
     = (db_ambiguous, Inl (AmbiguousDockerImageIdError ''cd'' [''docker.io'', ''quay.io'']))
   \<and> imgFromNameV2 env1 db_ambiguous ''alice''
      \<lparr> localName = ''ef'', rat_tag = Some ''latest'', rat_digest = None \<rparr>
     = (db_ambiguous, Inr (None, None))"
  using ambiguous_prefix [where E = env1 and D = db_ambiguous and account = "''alice''"
      and ix = None
      and r = "\<lparr> localName = ''ab'', rat_tag = Some ''latest'', rat_digest = None \<rparr>"
      and imgs = "[mk_v1 ''docker.io'' ''ab12'' [] True ''u1'' 1,
                   mk_v1 ''docker.io'' ''ab34'' [] True ''u2'' 1]"]
    ambiguous_prefix [where E = env1 and D = db_ambiguous and account = "''alice''"
      and ix = None
      and r = "\<lparr> localName = ''cd'', rat_tag = Some ''latest'', rat_digest = None \<rparr>"
      and imgs = "[mk_v1 ''docker.io'' ''cd56'' [] True ''u3'' 1,
                   mk_v1 ''quay.io'' ''cd56'' [] True ''u4'' 1]"]
    ambiguous_prefix [where E = env1 and D = db_ambiguous and account = "''alice''"
      and r = "\<lparr> localName = ''ef'', rat_tag = Some ''latest'', rat_digest = None \<rparr>"
      and ?imgs2.0 = "[mk_v2 ''sha256:ef12'' [] True ''u5'' [],
                       mk_v2 ''sha256:ef34'' [] True ''u6'' []]"]
    ambiguous_fixture_lists
  by (simp add: is_hex_def index_constraint_def mk_v1_def)

text \<open>The same three names through \<open>imgFromName\<close>.\<close>

lemma imgFromName_ambiguous_scenario:
  "imgFromName env1 db_ambiguous (mk_opts ''ab'' False) = (db_ambiguous, Inr (None, None))"
  "imgFromName env1 db_ambiguous (mk_opts ''cd'' False)
     = (db_ambiguous, Inl (AmbiguousDockerImageIdError ''cd'' [''docker.io'', ''quay.io'']))"
  "imgFromName env1 db_ambiguous (mk_opts ''ef'' False) = (db_ambiguous, Inr (None, None))"
  by (simp_all add: resolver_defs store_defs fixture_defs)


section \<open>Dependent images stop the reclamation of blobs\<close>

lemma Image_del_deletes: "Image_del E D i = Inr D' \<Longrightarrow> db_imgapi_deletes D' = db_imgapi_deletes D"
  by (auto simp: Image_del_def split: sum.splits)

lemma Image_update_deletes:
  "Image_update E D i hs b = Inr D' \<Longrightarrow> db_imgapi_deletes D' = db_imgapi_deletes D"
  by (auto simp: Image_update_def split: option.splits)

text \<open>Once the flag is set, the v1 loop asks IMGAPI for nothing more.\<close>

lemma deleteOneImg_hit:
  "deleteOneImg E D cid dc imgs True ch = (D', e, ch')
     \<Longrightarrow> db_imgapi_deletes D' = db_imgapi_deletes D"
proof (induction imgs arbitrary: D ch)
  case Nil
  then show ?case by simp
next
  case (Cons i imgs)
  show ?case
  proof (cases "i1_refcount i > 1")
    case True
    with Cons.prems show ?thesis
      by (auto split: sum.splits dest!: Cons.IH Image_update_deletes)
  next
    case False
    with Cons.prems show ?thesis
      by (auto simp: Let_def split: sum.splits dest!: Cons.IH Image_del_deletes)
  qed
qed

lemma butlast_attempts:
  "\<forall>u\<in>set (butlast as). P u \<Longrightarrow> P a \<Longrightarrow> \<forall>u\<in>set (butlast (a # as)). P u"
  by (cases as) auto

lemma deleteOneImg_attempts:
  "deleteOneImg E D cid dc imgs hit ch = (D', e, ch')
     \<Longrightarrow> \<exists>as. db_imgapi_deletes D' = db_imgapi_deletes D @ as
              \<and> (\<forall>u\<in>set (butlast as). \<not> answersDependent E u)"
proof (induction imgs arbitrary: D hit ch)
  case Nil
  then show ?case by simp
next
  case (Cons i imgs)
  show ?case
  proof (cases "i1_refcount i > 1")
    case True
    show ?thesis
    proof (cases "Image_update E D i (filter (\<lambda>h. h \<noteq> cid) (i1_heads i)) (i1_docker_id i = cid)")
      case (Inl x)
      with True Cons.prems show ?thesis by simp
    next
      case (Inr D1)
      with True Cons.prems have "deleteOneImg E D1 cid dc imgs hit ch = (D', e, ch')" by simp
      from Cons.IH [OF this] Image_update_deletes [OF Inr] show ?thesis by simp
    qed
  next
    case False
    show ?thesis
    proof (cases "Image_del E D i")
      case (Inl x)
      with False Cons.prems show ?thesis by simp
    next
      case (Inr D1)
      note d1 = Image_del_deletes [OF Inr]
      show ?thesis
      proof (cases "map_of dc (i1_docker_id i) = None \<or> hit")
        case True
        with False Inr Cons.prems
        have "deleteOneImg E D1 cid dc imgs hit (ch @ [Deleted (i1_docker_id i)]) = (D', e, ch')"
          by (auto simp: Let_def)
        from Cons.IH [OF this] d1 show ?thesis by simp
      next
        case nl: False
        let ?D2 = "D1\<lparr>db_imgapi_deletes := db_imgapi_deletes D1 @ [i1_image_uuid i]\<rparr>"
        show ?thesis
        proof (cases "imgapi_deleteImage E (i1_image_uuid i)")
          case None
          with nl False Inr Cons.prems
          have r: "deleteOneImg E ?D2 cid dc imgs hit (ch @ [Deleted (i1_docker_id i)])
                     = (D', e, ch')"
            by (auto simp: Let_def)
          from Cons.IH [OF r] obtain as where
            as: "db_imgapi_deletes D' = db_imgapi_deletes ?D2 @ as"
                "\<forall>u\<in>set (butlast as). \<not> answersDependent E u" by blast
          have "\<not> answersDependent E (i1_image_uuid i)"
            using None by (simp add: answersDependent_def)
          with as(2) have "\<forall>u\<in>set (butlast (i1_image_uuid i # as)). \<not> answersDependent E u"
            by (rule butlast_attempts)
          moreover from as(1) d1
          have "db_imgapi_deletes D' = db_imgapi_deletes D @ (i1_image_uuid i # as)" by simp
          ultimately show ?thesis by blast
        next
          case (Some x)
          show ?thesis
          proof (cases "restCode x = Some ''ImageHasDependentImages''")
            case True
            with Some nl False Inr Cons.prems
            have r: "deleteOneImg E ?D2 cid dc imgs True (ch @ [Deleted (i1_docker_id i)])
                       = (D', e, ch')"
              by (auto simp: Let_def)
            from deleteOneImg_hit [OF r] d1
            have "db_imgapi_deletes D' = db_imgapi_deletes D @ [i1_image_uuid i]" by simp
            then show ?thesis by (intro exI [of _ "[i1_image_uuid i]"]) simp
          next
            case nd: False
            with Some nl False Inr Cons.prems
            have "D' = ?D2" by (auto simp: Let_def)
            with d1 have "db_imgapi_deletes D' = db_imgapi_deletes D @ [i1_image_uuid i]" by simp
            then show ?thesis by (intro exI [of _ "[i1_image_uuid i]"]) simp
          qed
        qed
      qed
    qed
  qed
qed

lemma deleteOneImg_succeeds:
  assumes "\<forall>c. moray_fault E c = None"
    and "\<forall>u. imgapi_deleteImage E u \<noteq> None \<longrightarrow> answersDependent E u"
  shows "\<exists>D' ch'. deleteOneImg E D cid dc imgs hit ch = (D', None, ch')"
proof (induction imgs arbitrary: D hit ch)
  case Nil
  then show ?case by simp
next
  case (Cons i imgs)
  have u: "\<And>D hs b. \<exists>D1. Image_update E D i hs b = Inr D1"
    using assms(1) by (simp add: Image_update_def)
  have d: "\<And>D. \<exists>D1. Image_del E D i = Inr D1"
    using assms(1) by (simp add: Image_del_def delObj_def)
  have r: "\<And>x. imgapi_deleteImage E (i1_image_uuid i) = Some x
              \<Longrightarrow> restCode x = Some ''ImageHasDependentImages''"
    using assms(2) by (force simp: answersDependent_def)
  show ?case
  proof (cases "i1_refcount i > 1")
    case True
    from u obtain D1 where
      "Image_update E D i (filter (\<lambda>h. h \<noteq> cid) (i1_heads i)) (i1_docker_id i = cid) = Inr D1"
      by blast
    with True Cons.IH [of D1 hit ch] show ?thesis by simp
  next
    case False
    from d obtain D1 where D1: "Image_del E D i = Inr D1" by blast
    show ?thesis
    proof (cases "imgapi_deleteImage E (i1_image_uuid i)")
      case None
      with False D1 show ?thesis
        using Cons.IH by (simp add: Let_def)
    next
      case (Some x)
      with r have "restCode x = Some ''ImageHasDependentImages''" by blast
      with Some False D1 show ?thesis
        using Cons.IH by (simp add: Let_def)
    qed
  qed
qed

lemma deleteLayer_hit:
  "deleteLayer E D ls True own ch = (D, None, ch)"
  by (induction ls) simp_all

lemma deleteLayer_attempts:
  "deleteLayer E D ls hit own ch = (D', e, ch')
     \<Longrightarrow> \<exists>as. db_imgapi_deletes D' = db_imgapi_deletes D @ as
              \<and> (\<forall>u\<in>set (butlast as). \<not> answersDependent E u)"
proof (induction ls arbitrary: D hit own ch)
  case Nil
  then show ?case by simp
next
  case (Cons l ls)
  show ?case
  proof (cases hit)
    case True
    with Cons.prems have "D' = D" by (simp add: deleteLayer_hit)
    then show ?thesis by simp
  next
    case nh: False
    show ?thesis
    proof (cases "ImageV2_list E D [(''image_uuid'', FStr (li_uuid l))]")
      case (Inl x)
      with nh Cons.prems show ?thesis by simp
    next
      case (Inr imgs)
      let ?own = "0 < own (li_uuid l)"
      let ?cnt = "int (length imgs) - (if ?own then 1 else 0)"
      let ?own' = "if ?own then own (li_uuid l := own (li_uuid l) - 1) else own"
      show ?thesis
      proof (cases "?cnt \<ge> 1")
        case True
        with nh Inr Cons.prems have "D' = D"
          by (simp add: Let_def deleteLayer_hit)
        then show ?thesis by simp
      next
        case nc: False
        let ?D2 = "D\<lparr>db_imgapi_deletes := db_imgapi_deletes D @ [li_uuid l]\<rparr>"
        show ?thesis
        proof (cases "imgapi_deleteImage E (li_uuid l)")
          case None
          with nc nh Inr Cons.prems
          have r: "deleteLayer E ?D2 ls False ?own' (ch @ [Deleted (li_diffId l)]) = (D', e, ch')"
            by (simp add: Let_def)
          from Cons.IH [OF r] obtain as where
            as: "db_imgapi_deletes D' = db_imgapi_deletes ?D2 @ as"
                "\<forall>u\<in>set (butlast as). \<not> answersDependent E u" by blast
          have "\<not> answersDependent E (li_uuid l)"
            using None by (simp add: answersDependent_def)
          with as(2) have "\<forall>u\<in>set (butlast (li_uuid l # as)). \<not> answersDependent E u"
            by (rule butlast_attempts)
          moreover from as(1)
          have "db_imgapi_deletes D' = db_imgapi_deletes D @ (li_uuid l # as)" by simp
          ultimately show ?thesis by blast
        next
          case (Some x)
          with nc nh Inr Cons.prems have "D' = ?D2"
            by (simp add: Let_def deleteLayer_hit split: if_splits)
          then have "db_imgapi_deletes D' = db_imgapi_deletes D @ [li_uuid l]" by simp
          then show ?thesis by (intro exI [of _ "[li_uuid l]"]) simp
        qed
      qed
    qed
  qed
qed

lemma deleteLayer_succeeds:
  assumes "\<forall>c. moray_fault E c = None"
    and "\<forall>u. imgapi_deleteImage E u \<noteq> None \<longrightarrow> answersDependent E u"
  shows "\<exists>D' ch'. deleteLayer E D ls hit own ch = (D', None, ch')
           \<and> db_images_v2 D' = db_images_v2 D"
proof (induction ls arbitrary: D hit own ch)
  case Nil
  then show ?case by simp
next
  case (Cons l ls)
  have lst: "\<And>D f. ImageV2_list E D f = Inr (filter (matches image_v2_field f) (db_images_v2 D))"
    using assms(1) by (simp add: ImageV2_list_def listObjs_def)
  have r: "\<And>x. imgapi_deleteImage E (li_uuid l) = Some x
              \<Longrightarrow> restCode x = Some ''ImageHasDependentImages''"
    using assms(2) by (force simp: answersDependent_def)
  show ?case
  proof (cases hit)
    case True
    then show ?thesis by (simp add: deleteLayer_hit)
  next
    case nh: False
    let ?D2 = "D\<lparr>db_imgapi_deletes := db_imgapi_deletes D @ [li_uuid l]\<rparr>"
    have v: "db_images_v2 ?D2 = db_images_v2 D" by simp
    show ?thesis
    proof (cases "imgapi_deleteImage E (li_uuid l)")
      case None
      with nh show ?thesis
        using Cons.IH [of D] Cons.IH [of ?D2] v
        by (simp add: Let_def lst deleteLayer_hit del: deleteLayer.simps(2)
              add: deleteLayer.simps(2) [of E D l ls])
    next
      case (Some x)
      with r have "restCode x = Some ''ImageHasDependentImages''" by blast
      with Some nh show ?thesis
        by (simp add: Let_def lst deleteLayer_hit)
    qed
  qed
qed

lemma deleteDockerImages_all:
  assumes "\<forall>c. moray_fault E c = None"
  shows "\<forall>i\<in>set imgs. i2_digest i = digest \<or> \<not> i2_head i
     \<Longrightarrow> deleteDockerImages E D digest imgs ch
           = (D\<lparr>db_images_v2 :=
                  filter (\<lambda>r. objectKey r \<notin> objectKey ` set imgs) (db_images_v2 D)\<rparr>,
              None, ch @ map (\<lambda>i. Deleted (i2_digest i)) imgs)"
proof (induction imgs arbitrary: D ch)
  case Nil
  then show ?case by simp
next
  case (Cons i imgs)
  have d: "ImageV2_del E D i
      = Inr (D\<lparr>db_images_v2 := filter (\<lambda>r. objectKey r \<noteq> objectKey i) (db_images_v2 D)\<rparr>)"
    using assms by (simp add: ImageV2_del_def delObj_def)
  have f: "filter (\<lambda>r. objectKey r \<notin> objectKey ` set imgs)
              (filter (\<lambda>r. objectKey r \<noteq> objectKey i) (db_images_v2 D))
         = filter (\<lambda>r. objectKey r \<notin> objectKey ` set (i # imgs)) (db_images_v2 D)"
    by (auto intro: filter_cong)
  from Cons.prems have h: "i2_digest i = digest \<or> \<not> i2_head i"
    and rest: "\<forall>i\<in>set imgs. i2_digest i = digest \<or> \<not> i2_head i" by simp_all
  show ?case
    using h Cons.IH [OF rest] f by (auto simp: d)
qed

lemma deleteLayersThenImages_all:
  assumes nf: "\<forall>c. moray_fault E c = None"
    and dep: "\<forall>u. imgapi_deleteImage E u \<noteq> None \<longrightarrow> answersDependent E u"
    and m: "parseManifestLayers E (i2_manifest_str img) = Some layers"
    and len: "length (i2_diff_ids img) = length layers"
    and heads: "\<forall>i\<in>set imgs. i2_digest i = i2_digest img \<or> \<not> i2_head i"
  shows "\<exists>D' ch'. deleteLayersThenImages E D img imgs ch
                     = (D', None, ch' @ map (\<lambda>i. Deleted (i2_digest i)) imgs)
           \<and> db_images_v2 D'
               = filter (\<lambda>r. objectKey r \<notin> objectKey ` set imgs) (db_images_v2 D)"
proof -
  from deleteLayer_succeeds [OF nf dep] obtain D2 ch2 where
    l: "deleteLayer E D (rev (layerInfos E layers (i2_diff_ids img))) False
          (count_list (map i2_image_uuid imgs)) ch = (D2, None, ch2)"
    and v: "db_images_v2 D2 = db_images_v2 D" by blast
  have "deleteLayersThenImages E D img imgs ch
          = deleteDockerImages E D2 (i2_digest img) imgs ch2"
    using m len l by (simp add: deleteLayersThenImages_def deleteImgapiLayers_def)
  with deleteDockerImages_all [OF nf heads, of D2 ch2] v show ?thesis by simp
qed

text \<open>
  C5. In the blob-reclaiming loop of either engine (\<open>deleteOneImg\<close> for v1, \<open>deleteLayer\<close>
  for v2), the IMGAPI deletions attempted by one call are a list in which only the last
  attempt can have been answered with \<^verbatim>\<open>ImageHasDependentImages\<close>: after such an
  answer no further blob deletion is attempted. The answer is not an error of the call:
  when no store call fails and IMGAPI answers every deletion with success or with
  \<^verbatim>\<open>ImageHasDependentImages\<close>, the v1 cascade succeeds, and the v2 cascade succeeds
  and deletes the metadata record of every image of the cascade.
\<close>

theorem dependent_images_swallowed:
  "(deleteOneImg E D cid dc imgs False ch = (D1, e1, ch1) \<longrightarrow>
      (\<exists>as. db_imgapi_deletes D1 = db_imgapi_deletes D @ as
            \<and> (\<forall>u\<in>set (butlast as). \<not> answersDependent E u)))
   \<and> (deleteLayer E D ls False own ch = (D2, e2, ch2) \<longrightarrow>
      (\<exists>as. db_imgapi_deletes D2 = db_imgapi_deletes D @ as
            \<and> (\<forall>u\<in>set (butlast as). \<not> answersDependent E u)))
   \<and> ((\<forall>c. moray_fault E c = None)
        \<and> (\<forall>u. imgapi_deleteImage E u \<noteq> None \<longrightarrow> answersDependent E u) \<longrightarrow>
      (\<exists>D' ch'. deleteImgs E D False cid dc imgs ch = (D', None, ch')))
   \<and> ((\<forall>c. moray_fault E c = None)
        \<and> (\<forall>u. imgapi_deleteImage E u \<noteq> None \<longrightarrow> answersDependent E u)
        \<and> parseManifestLayers E (i2_manifest_str img) = Some layers
        \<and> length (i2_diff_ids img) = length layers
        \<and> (\<forall>i\<in>set imgs2. i2_digest i = i2_digest img \<or> \<not> i2_head i) \<longrightarrow>
      (\<exists>D' ch'. deleteLayersThenImages E D img imgs2 ch
                   = (D', None, ch' @ map (\<lambda>i. Deleted (i2_digest i)) imgs2)
            \<and> db_images_v2 D'
                = filter (\<lambda>r. objectKey r \<notin> objectKey ` set imgs2) (db_images_v2 D)))"
proof (intro conjI impI)
  assume "deleteOneImg E D cid dc imgs False ch = (D1, e1, ch1)"
  then show "\<exists>as. db_imgapi_deletes D1 = db_imgapi_deletes D @ as
            \<and> (\<forall>u\<in>set (butlast as). \<not> answersDependent E u)"
    by (rule deleteOneImg_attempts)
next
  assume "deleteLayer E D ls False own ch = (D2, e2, ch2)"
  then show "\<exists>as. db_imgapi_deletes D2 = db_imgapi_deletes D @ as
            \<and> (\<forall>u\<in>set (butlast as). \<not> answersDependent E u)"
    by (rule deleteLayer_attempts)
next
  assume a: "(\<forall>c. moray_fault E c = None)
        \<and> (\<forall>u. imgapi_deleteImage E u \<noteq> None \<longrightarrow> answersDependent E u)"
  then obtain D' ch' where "deleteOneImg E D cid dc imgs False ch = (D', None, ch')"
    using deleteOneImg_succeeds [of E D cid dc imgs False ch] by blast
  then show "\<exists>D' ch'. deleteImgs E D False cid dc imgs ch = (D', None, ch')"
    by (simp add: deleteImgs_def)
next
  assume "(\<forall>c. moray_fault E c = None)
        \<and> (\<forall>u. imgapi_deleteImage E u \<noteq> None \<longrightarrow> answersDependent E u)
        \<and> parseManifestLayers E (i2_manifest_str img) = Some layers
        \<and> length (i2_diff_ids img) = length layers
        \<and> (\<forall>i\<in>set imgs2. i2_digest i = i2_digest img \<or> \<not> i2_head i)"
  then show "\<exists>D' ch'. deleteLayersThenImages E D img imgs2 ch
                   = (D', None, ch' @ map (\<lambda>i. Deleted (i2_digest i)) imgs2)
            \<and> db_images_v2 D'
                = filter (\<lambda>r. objectKey r \<notin> objectKey ` set imgs2) (db_images_v2 D)"
    using deleteLayersThenImages_all [of E img layers imgs2 D ch] by blast
qed

lemma env1_no_faults: "\<forall>c. moray_fault env1 c = None"
  by (simp add: env1_def env0_def)

lemma env1_only_dependent:
  "\<forall>u. imgapi_deleteImage env1 u \<noteq> None \<longrightarrow> answersDependent env1 u"
  by (simp add: answersDependent_def env1_def env0_def)

lemma v1_cascade_evaluated:
  "deleteOneImg env1 db_v1_chain ''cafe0123456789''
      [(''cafe0123456789'', 1), (''beef0123456789'', 1)] [img_cafe, img_beef] False []
     = (db_v1_chain \<lparr> db_images := [], db_imgapi_deletes := [''u-dep''] \<rparr>, None,
        [Deleted ''cafe0123456789'', Deleted ''beef0123456789''])"
  by (simp add: store_defs fixture_defs)

lemma v2_layers_evaluated:
  "deleteLayer env1 db_layers (rev (layerInfos env1 [''u-'', ''dep''] [''d1'', ''d2''])) False
      (count_list [''u-dep'']) []
     = (db_layers \<lparr> db_imgapi_deletes := [''u-dep''] \<rparr>, None, [])"
  by (simp add: layerInfos_def upt_rec store_defs fixture_defs)

lemma img_top_well_formed:
  "parseManifestLayers env1 (i2_manifest_str img_top) = Some [''u-'', ''dep'']"
  "length (i2_diff_ids img_top) = length [''u-'', ''dep'']"
  "\<forall>i\<in>set [img_top]. i2_digest i = i2_digest img_top \<or> \<not> i2_head i"
  by (simp_all add: fixture_defs)

theorem dependent_images_swallowed_witness:
  "answersDependent env1 ''u-dep''
   \<and> (\<exists>as. db_imgapi_deletes (db_v1_chain \<lparr> db_images := [], db_imgapi_deletes := [''u-dep''] \<rparr>)
              = db_imgapi_deletes db_v1_chain @ as
            \<and> (\<forall>u\<in>set (butlast as). \<not> answersDependent env1 u))
   \<and> (\<exists>as. db_imgapi_deletes (db_layers \<lparr> db_imgapi_deletes := [''u-dep''] \<rparr>)
              = db_imgapi_deletes db_layers @ as
            \<and> (\<forall>u\<in>set (butlast as). \<not> answersDependent env1 u))
   \<and> (\<exists>D' ch'. deleteImgs env1 db_v1_chain False ''cafe0123456789''
                   [(''cafe0123456789'', 1), (''beef0123456789'', 1)] [img_cafe, img_beef] []
                  = (D', None, ch'))
   \<and> (\<exists>D' ch'. deleteLayersThenImages env1 db_layers img_top [img_top] []
                   = (D', None, ch' @ map (\<lambda>i. Deleted (i2_digest i)) [img_top])
            \<and> db_images_v2 D'
                = filter (\<lambda>r. objectKey r \<notin> objectKey ` set [img_top]) (db_images_v2 db_layers))"
proof -
  have dep: "answersDependent env1 ''u-dep''"
    by (simp add: answersDependent_def env1_def env0_def)
  note inst = dependent_images_swallowed [where E = env1 and D = db_v1_chain
      and cid = "''cafe0123456789''"
      and dc = "[(''cafe0123456789'', 1), (''beef0123456789'', 1)]"
      and imgs = "[img_cafe, img_beef]" and ch = "[]"
      and ?D1.0 = "db_v1_chain \<lparr> db_images := [], db_imgapi_deletes := [''u-dep''] \<rparr>"
      and ?e1.0 = None
      and ?ch1.0 = "[Deleted ''cafe0123456789'', Deleted ''beef0123456789'']"]
  note inst2 = dependent_images_swallowed [where E = env1 and D = db_layers
      and ls = "rev (layerInfos env1 [''u-'', ''dep''] [''d1'', ''d2''])"
      and own = "count_list [''u-dep'']" and ch = "[]"
      and ?D2.0 = "db_layers \<lparr> db_imgapi_deletes := [''u-dep''] \<rparr>"
      and ?e2.0 = None and ?ch2.0 = "[]"
      and img = img_top and layers = "[''u-'', ''dep'']" and ?imgs2.0 = "[img_top]"]
  from inst v1_cascade_evaluated env1_no_faults env1_only_dependent
  have a: "\<exists>as. db_imgapi_deletes (db_v1_chain \<lparr> db_images := [], db_imgapi_deletes := [''u-dep''] \<rparr>)
              = db_imgapi_deletes db_v1_chain @ as
            \<and> (\<forall>u\<in>set (butlast as). \<not> answersDependent env1 u)"
    and c: "\<exists>D' ch'. deleteImgs env1 db_v1_chain False ''cafe0123456789''
                   [(''cafe0123456789'', 1), (''beef0123456789'', 1)] [img_cafe, img_beef] []
                  = (D', None, ch')"
    by blast+
  from inst2 v2_layers_evaluated env1_no_faults env1_only_dependent img_top_well_formed
  have b: "\<exists>as. db_imgapi_deletes (db_layers \<lparr> db_imgapi_deletes := [''u-dep''] \<rparr>)
              = db_imgapi_deletes db_layers @ as
            \<and> (\<forall>u\<in>set (butlast as). \<not> answersDependent env1 u)"
    and d: "\<exists>D' ch'. deleteLayersThenImages env1 db_layers img_top [img_top] []
                   = (D', None, ch' @ map (\<lambda>i. Deleted (i2_digest i)) [img_top])
            \<and> db_images_v2 D'
                = filter (\<lambda>r. objectKey r \<notin> objectKey ` set [img_top]) (db_images_v2 db_layers)"
    by blast+
  from dep a b c d show ?thesis by blast
qed

text \<open>Both cascades end to end: the blob \<open>u-dep\<close> has dependents, the records go all the
  same and nothing else is asked of IMGAPI.\<close>

lemma deleteImage_dependent_scenario:
  "deleteImage env1 db_v1_chain (mk_opts ''busybox'' False) 5
     = Some (db_empty \<lparr> db_imgapi_deletes := [''u-dep''] \<rparr>, None,
             [Untagged ''busybox:latest'', Deleted ''cafe0123456789'',
              Deleted ''beef0123456789''])"
  "deleteImage env1 db_layers (mk_opts ''d0d0'' False) 5
     = Some (db_empty \<lparr> db_imgapi_deletes := [''u-dep''] \<rparr>, None,
             [Deleted ''sha256:d0d0''])"
  by (simp_all add: deleteImage_def deleteImageV1_def deleteImageV2_def ensureIsHeadImage_def
        v1_checkTagReferences_def verifyNotInUse_def v1_getImgsToDelete_def deleteImgs_def
        deleteLayersThenImages_def deleteImgapiLayers_def layerInfos_def upt_rec
        getImageAncestry_def checkAndCallback_def eval_nat_numeral
        resolver_defs store_defs fixture_defs)

section \<open>Where the code departs from its documentation\<close>

lemma v1_getImgsToDelete_callbacks:
  "getImageAncestry E D (o_account opts) fuel (V1 img) = Some (Inr (history, isPartial))
     \<Longrightarrow> \<exists>ch imgsToDelete.
           v1_getImgsToDelete E D opts fuel img changes
             = Some (if isPartial then [None, None] else [None], ch, imgsToDelete)"
  by (simp add: v1_getImgsToDelete_def)

text \<open>
  C8 (code defect). With a partial ancestry (the parent of the head image is missing),
  \<^verbatim>\<open>getImgsToDelete\<close> of the v1 engine appends the one warning entry and limits the
  cascade to the ancestors found, but it invokes the continuation \<^verbatim>\<open>cb\<close> twice: the
  partial branch calls \<^verbatim>\<open>cb()\<close> and falls through to the second \<^verbatim>\<open>cb()\<close>.
\<close>

theorem getImgsToDelete_calls_back_twice:
  "v1_getImgsToDelete env1 db_v1_broken (mk_opts ''busybox'' False) 5 img_cafe []
     = Some ([None, None],
             [Deleted ''warning: busybox missing some history: null''],
             [V1 img_cafe])"
  by (simp add: v1_getImgsToDelete_def getImageAncestry_def checkAndCallback_def
        eval_nat_numeral resolver_defs store_defs fixture_defs)

text \<open>The continuation was invoked two times.\<close>

theorem getImgsToDelete_calls_back_twice_witness:
  "map_option (\<lambda>r. length (fst r))
      (v1_getImgsToDelete env1 db_v1_broken (mk_opts ''busybox'' False) 5 img_cafe [])
     = Some 2"
  using getImgsToDelete_calls_back_twice by simp

text \<open>
  C3 (code defect). The record \<open>img_stale\<close> has lost its blob. Resolved by its image
  digest, or by its manifest digest, the caller gets ResourceNotFound but the record and
  its tag stay in the store, and the query that the image listing makes still returns the
  record. Resolved by tag name, record and tag are removed.
\<close>

theorem stale_record_kept_on_digest_lookup:
  "imgFromName env1 db_stale (mk_opts digest_a False)
     = (db_stale, Inl (ResourceNotFoundError ''No imgapi image with image_uuid: u-gone''))
   \<and> imgFromName env1 db_stale (mk_opts (''busybox@'' @ i2_manifest_digest img_stale) False)
     = (db_stale, Inl (ResourceNotFoundError ''No imgapi image with image_uuid: u-gone''))
   \<and> ImageV2_list env1 db_stale [(''owner_uuid'', FStr ''alice''), (''head'', FBool True)]
     = Inr [img_stale]
   \<and> imgFromName env1 db_stale (mk_opts ''busybox'' False) = (db_empty, Inr (None, None))"
  by (simp add: resolver_defs store_defs fixture_defs)

text \<open>After the lookup by digest the stale record is still stored.\<close>

theorem stale_record_kept_on_digest_lookup_witness:
  "db_images_v2 (fst (imgFromName env1 db_stale (mk_opts digest_a False))) = [img_stale]
   \<and> db_image_tags_v2 (fst (imgFromName env1 db_stale (mk_opts digest_a False)))
       = [mk_tag2 ''busybox'' ''latest'' digest_a]"
  using stale_record_kept_on_digest_lookup by (simp add: db_stale_def db_empty_def)

text \<open>What the by-name resolvers do with a stale record, for comparison: with no store
  failure, the v2 resolver removes the image record and, when a tag record led to it, that
  tag record, and reports no image.\<close>

lemma imgFromNameV2_removes_stale:
  assumes "v2_findByName E D account r = Inr imgTag"
    and "v2_findImage E D account r imgTag = Inr (Some img)"
    and "imgapi_getImage E (i2_image_uuid img) = Some e"
    and "statusCode e = Some 404"
    and "\<forall>c. moray_fault E c = None"
  shows "imgFromNameV2 E D account r
           = (D\<lparr>db_images_v2 := filter (\<lambda>x. objectKey x \<noteq> objectKey img) (db_images_v2 D),
                 db_image_tags_v2 :=
                   (case imgTag of
                      None \<Rightarrow> db_image_tags_v2 D
                    | Some t \<Rightarrow> filter (\<lambda>x. image_tag_v2_key x \<noteq> image_tag_v2_key t)
                                  (db_image_tags_v2 D))\<rparr>,
              Inr (None, None))"
  using assms
  by (cases imgTag)
     (simp_all add: imgFromNameV2_def ImageV2_del_def ImageTagV2_del_def delObj_def)

text \<open>The lookups by manifest digest and by image digest return the store they were
  given, whatever they find.\<close>

lemma digest_lookup_keeps_store:
  "rat_digest r = Some md \<Longrightarrow> md \<noteq> [] \<Longrightarrow> fst (findByDigests E D opts r) = D"
  "rat_digest r = None \<Longrightarrow> length (o_name opts) = 64 + 7 \<Longrightarrow> take 7 (o_name opts) = ''sha256:''
     \<Longrightarrow> fst (findByDigests E D opts r) = D"
  by (auto simp: findByDigests_def split: sum.splits option.splits)

text \<open>
  C4 (code defect). The name \<open>cafe\<close> is the v1 tag \<open>cafe:latest\<close> and also a prefix of the ID
  of a v2 image. \<open>imgFromName\<close> returns the v2 image found by ID prefix, without a tag
  record, and never looks the v1 tag up.
\<close>

theorem v2_id_prefix_beats_v1_tag_name:
  "v1_findByName env1 db_name_vs_id ''alice'' None
      \<lparr> localName = ''cafe'', rat_tag = Some ''latest'', rat_digest = None \<rparr>
     = Inr (Some (mk_tag1 ''docker.io'' ''cafe'' ''latest'' ''1111''))
   \<and> imgFromName env1 db_name_vs_id (mk_opts ''cafe'' False)
     = (db_name_vs_id, Inr (Some (V2 (mk_v2 ''sha256:cafe77'' [] True ''u7'' [])), None))"
  by (simp add: resolver_defs store_defs fixture_defs)

text \<open>The result is not the v1 image that the tag \<open>cafe:latest\<close> denotes.\<close>

theorem v2_id_prefix_beats_v1_tag_name_witness:
  "snd (imgFromName env1 db_name_vs_id (mk_opts ''cafe'' False))
     \<noteq> Inr (Some (V1 (mk_v1 ''docker.io'' ''1111'' [] True ''u1'' 1)),
            Some (TagV1 (mk_tag1 ''docker.io'' ''cafe'' ''latest'' ''1111'')))"
  using v2_id_prefix_beats_v1_tag_name by simp

text \<open>Within one schema the tag lookup does come first: when it yields a tag record, the
  image is searched by that tag's digest (or ID) only, never by prefix.\<close>

lemma tag_lookup_first:
  "v2_findImage_filter account r (Some t)
     = Some [(''digest'', FStr (t2_digest t)), (''owner_uuid'', FStr account)]"
  "v1_findImage_filter account ix r (Some t1)
     = Some ([(''docker_id'', FStr (t1_docker_id t1)), (''owner_uuid'', FStr account)]
             @ index_constraint ix)"
  by (simp_all add: v2_findImage_filter_def v1_findImage_filter_def)

text \<open>In the v2 resolver a tag record, once found, decides the result: an image returned
  with it matches the tag's digest, and the tag record is returned along.\<close>

lemma imgFromNameV2_by_tag:
  assumes "v2_findByName E D account r = Inr (Some t)"
    and "imgFromNameV2 E D account r = (D', Inr (Some img, tg))"
  shows "tg = Some t \<and> D' = D
         \<and> matches image_v2_field
              [(''digest'', FStr (t2_digest t)), (''owner_uuid'', FStr account)] img"
proof -
  have f: "v2_findImage_filter account r (Some t)
             = Some [(''digest'', FStr (t2_digest t)), (''owner_uuid'', FStr account)]"
    by (simp add: v2_findImage_filter_def)
  from assms(2) obtain i where i: "v2_findImage E D account r (Some t) = Inr (Some i)"
    unfolding imgFromNameV2_def assms(1)
    by (auto split: sum.splits option.splits if_splits)
  with assms(2) have r: "img = i" "tg = Some t" "D' = D"
    unfolding imgFromNameV2_def assms(1)
    by (auto split: sum.splits option.splits if_splits)
  from i obtain imgs where l: "ImageV2_list E D
        [(''digest'', FStr (t2_digest t)), (''owner_uuid'', FStr account)] = Inr imgs"
      and m: "i \<in> set imgs"
    unfolding v2_findImage_def f
    by (auto split: sum.splits list.splits)
  from l m have "matches image_v2_field
        [(''digest'', FStr (t2_digest t)), (''owner_uuid'', FStr account)] i"
    by (auto simp: ImageV2_list_def listObjs_def split: option.splits)
  with r show ?thesis by simp
qed

end
